(* ===== verification/Prelude.thy ===== *)
theory Prelude
  imports Complex_Main
begin

text \<open>
  Shared vocabulary of the ColdBoxers landing-page development: the names of the
  model's basic types, the theorem collections the component theories fill, the
  JavaScript \<open>split\<close> the page calls and the browser's tokenising of
  attributes built from it, and the generic facts on lists and keys that the "exactly one control is
  selected" and "at most one panel is open" arguments of several components share.
\<close>

section \<open>Types of the model\<close>

text \<open>
  JavaScript numbers that are read as pixels, percentages or seconds are modelled as
  \<^typ>\<open>real\<close>: no value of the page is near the range where IEEE rounding matters, and
  no claim depends on it. Integers that only index arrays are \<^typ>\<open>nat\<close>.
\<close>

type_synonym px = real
type_synonym seconds = real
type_synonym percent = real
type_synonym dom_id = string
type_synonym css_class = string

section \<open>Theorem collections\<close>

named_theorems catalog_data "literal data arrays of the page, unfolded for evaluation"
named_theorems handler_simps "equations of the event handlers of the page's components"

section \<open>JavaScript strings\<close>

text \<open>
  \<open>String.prototype.split\<close> with a one-character separator: the pieces between
  separators, empty pieces included (\<open>"".split(" ")\<close> is \<open>[""]\<close>).
\<close>

fun js_split :: "char \<Rightarrow> string \<Rightarrow> string list" where
  "js_split c [] = [[]]"
| "js_split c (x # xs) =
     (if x = c then [] # js_split c xs
      else (case js_split c xs of [] \<Rightarrow> [[x]] | w # ws \<Rightarrow> (x # w) # ws))"

text \<open>
  A whitespace-separated attribute (\<open>class\<close>, a feature-policy directive) as the
  browser reads it: its non-empty space-separated tokens.
\<close>

definition css_tokens :: "string \<Rightarrow> string list" where
  "css_tokens s = filter (\<lambda>w. w \<noteq> []) (js_split CHR '' '' s)"

section \<open>Keys and selection\<close>

text \<open>
  A list whose elements have pairwise distinct keys has exactly one element with the
  key of any of its members; this is what makes a selection compared by key
  (\<open>selectedColor.name === color.name\<close>) mark exactly one control.
\<close>

lemma filter_key_member:
  assumes "distinct (map f xs)" and "k \<in> set xs"
  shows "filter (\<lambda>x. f x = f k) xs = [k]"
  using assms
proof (induction xs)
  case Nil
  then show ?case by simp
next
  case (Cons y ys)
  show ?case
  proof (cases "y = k")
    case True
    with Cons.prems(1) have "\<forall>z\<in>set ys. f z \<noteq> f k" by (auto simp: image_iff)
    with True show ?thesis by (simp add: filter_False)
  next
    case False
    with Cons.prems have "k \<in> set ys" and "f y \<noteq> f k"
      by (auto simp: image_iff)
    with Cons.IH Cons.prems(1) show ?thesis by simp
  qed
qed

lemma filter_key_member':
  assumes "distinct (map f xs)" and "k \<in> set xs"
  shows "filter (\<lambda>x. f k = f x) xs = [k]"
proof -
  have "(\<lambda>x. f k = f x) = (\<lambda>x. f x = f k)" by auto
  with filter_key_member [OF assms] show ?thesis by simp
qed

lemma length_filter_key_le1:
  assumes "distinct (map f xs)"
  shows "length (filter (\<lambda>x. f x = v) xs) \<le> 1"
proof (cases "\<exists>k\<in>set xs. f k = v")
  case True
  then obtain k where "k \<in> set xs" and "f k = v" by blast
  with assms filter_key_member [of f xs k] show ?thesis by simp
next
  case False
  then have "filter (\<lambda>x. f x = v) xs = []" by (auto simp: filter_empty_conv)
  then show ?thesis by simp
qed

lemma length_filter_key_member:
  "distinct (map f xs) \<Longrightarrow> k \<in> set xs \<Longrightarrow> length (filter (\<lambda>x. f x = f k) xs) = 1"
  by (simp add: filter_key_member)

text \<open>The same for positions: at most one index of a list equals a given value.\<close>

lemma length_filter_index_le1:
  "length (filter (\<lambda>i. a = Some i) [0..<n]) \<le> 1"
proof -
  have "length (filter (\<lambda>i. Some i = a) [0..<n]) \<le> 1"
    using length_filter_key_le1 [of "\<lambda>i. Some i" "[0..<n]" a]
    by (simp add: distinct_map inj_on_def)
  moreover have "(\<lambda>i. a = Some i) = (\<lambda>i. Some i = a)" by auto
  ultimately show ?thesis by simp
qed

lemma filter_index_member:
  "i < n \<Longrightarrow> filter ((=) i) [0..<n] = [i]"
  using filter_key_member' [of id "[0..<n]" i] by simp

section \<open>Splitting\<close>

lemma js_split_not_Nil [simp]: "js_split c s \<noteq> []"
  by (induction s) (auto split: list.splits)

lemma js_split_append_sep_general: "js_split c (a @ c # b) = js_split c a @ js_split c b"
proof (induction a)
  case Nil
  then show ?case by simp
next
  case (Cons x a)
  obtain w ws where eq: "js_split c a = w # ws" by (cases "js_split c a") auto
  show ?case using Cons.IH eq by simp
qed

lemma css_tokens_append_space: "css_tokens (a @ CHR '' '' # b) = css_tokens a @ css_tokens b"
  by (simp add: css_tokens_def js_split_append_sep_general)

lemma css_tokens_Nil [simp]: "css_tokens [] = []"
  by (simp add: css_tokens_def)

end
