(* ===== verification/Catalog.thy ===== *)
theory Catalog
  imports Prelude
begin

text \<open>
  The static content catalog: the types of \<open>src/types.ts\<close> (the \<open>Bundle\<close>
  interface, the \<open>ColorOption\<close> enum, the \<open>COLORS\<close> and \<open>SIZES\<close> arrays) and the
  module-level data arrays at the top of \<open>src/App.tsx\<close> (\<open>bundles\<close>,
  \<open>galleryImages\<close>, \<open>faqs\<close>, \<open>reviews\<close>). All of it is read-only configuration
  built once at module load; the theory records the lengths and the unique keys the
  configurator's selection arguments rely on. \<open>ColorOption\<close> is an instance of the library's
  \<open>enum\<close> class, so statements over all colours are finite checks.
\<close>

section \<open>Types\<close>

text \<open>\<open>interface Bundle\<close>; the optional field \<open>badge?\<close> is an option.\<close>

record Bundle =
  bundle_id :: string
  bundle_name :: string
  description :: string
  bundle_includes :: "string list"
  price :: int
  badge :: "string option"
  cta :: string
  bundle_image :: string

text \<open>\<open>enum ColorOption\<close>: a string enum; its member values are the display names.\<close>

datatype ColorOption = Onyx | Navy | Grey | Green

fun ColorOption_value :: "ColorOption \<Rightarrow> string" where
  "ColorOption_value Onyx = ''Onyx Black''"
| "ColorOption_value Navy = ''Arctic Navy''"
| "ColorOption_value Grey = ''Stone Grey''"
| "ColorOption_value Green = ''Forest Green''"

text \<open>
  The four colours as an enumerable type, so that statements quantified over all colours
  are decided by evaluation.
\<close>

instantiation ColorOption :: enum
begin

definition enum_ColorOption :: "ColorOption list" where
  "enum_ColorOption = [Onyx, Navy, Grey, Green]"

definition enum_all_ColorOption :: "(ColorOption \<Rightarrow> bool) \<Rightarrow> bool" where
  "enum_all_ColorOption P \<longleftrightarrow> P Onyx \<and> P Navy \<and> P Grey \<and> P Green"

definition enum_ex_ColorOption :: "(ColorOption \<Rightarrow> bool) \<Rightarrow> bool" where
  "enum_ex_ColorOption P \<longleftrightarrow> P Onyx \<or> P Navy \<or> P Grey \<or> P Green"

instance
proof
  have u: "(UNIV :: ColorOption set) = {Onyx, Navy, Grey, Green}"
  proof -
    have "c \<in> {Onyx, Navy, Grey, Green}" for c :: ColorOption
      by (cases c) simp_all
    then show ?thesis by blast
  qed
  fix P :: "ColorOption \<Rightarrow> bool"
  show "(UNIV :: ColorOption set) = set enum_class.enum"
    by (simp add: u enum_ColorOption_def)
  show "distinct (enum_class.enum :: ColorOption list)"
    by (simp add: enum_ColorOption_def)
  show "enum_class.enum_all P = Ball UNIV P"
    by (simp add: u enum_all_ColorOption_def)
  show "enum_class.enum_ex P = Bex UNIV P"
    by (simp add: u enum_ex_ColorOption_def)
qed

end

text \<open>The element type of \<open>COLORS\<close>: \<open>{ name: ColorOption, hex: string }\<close>.\<close>

record color_entry =
  color_name :: ColorOption
  hex :: string

record faq_entry =
  faq_q :: string
  faq_a :: string

record review =
  review_text :: string
  author :: string

section \<open>Data\<close>

definition COLORS :: "color_entry list" where
  "COLORS =
    [\<lparr>color_name = Onyx, hex = ''#1a1a1a''\<rparr>,
     \<lparr>color_name = Navy, hex = ''#1e3a8a''\<rparr>,
     \<lparr>color_name = Grey, hex = ''#4b5563''\<rparr>,
     \<lparr>color_name = Green, hex = ''#14532d''\<rparr>]"

definition SIZES :: "string list" where
  "SIZES = [''S'', ''M'', ''L'', ''XL'']"

definition bundles :: "Bundle list" where
  "bundles =
    [\<lparr>bundle_id = ''starter'', bundle_name = ''Starter'',
      description = ''For trying the fit and feel.'',
      bundle_includes = [''1 ColdBoxers boxer brief'', ''1 cooling pad''],
      price = 39, badge = None, cta = ''Get Starter'',
      bundle_image = ''images/3 medium.png''\<rparr>,
     \<lparr>bundle_id = ''sauna-set'', bundle_name = ''Sauna Set'',
      description = ''Built for real sauna routines and pad swapping.'',
      bundle_includes = [''3 ColdBoxers boxer briefs'', ''3 cooling pads''],
      price = 100, badge = Some ''Most Popular'', cta = ''Get the 3 Pack'',
      bundle_image = ''images/4 medium.png''\<rparr>,
     \<lparr>bundle_id = ''rotation'', bundle_name = ''Rotation'',
      description = ''Your full weekly lineup. Always ready.'',
      bundle_includes = [''5 ColdBoxers boxer briefs'', ''5 cooling pads''],
      price = 155, badge = Some ''Best Value'', cta = ''Get the 5 Pack'',
      bundle_image = ''images/5 medium.png''\<rparr>]"

definition galleryImages :: "string list" where
  "galleryImages =
    [''images/6 medium.png'', ''images/7 medium.png'', ''images/8 medium.png'',
     ''images/9 medium.png'', ''images/10 medium.png'', ''images/11 medium.png'',
     ''images/12 medium.png'', ''images/13 medium.png'', ''images/14 medium.png'']"

definition faqs :: "faq_entry list" where
  "faqs =
    [\<lparr>faq_q = ''How cold is it?'',
      faq_a = ''Refreshing, not extreme. The pocket design helps keep cooling controlled and comfortable.''\<rparr>,
     \<lparr>faq_q = ''How long does it last?'',
      faq_a = ''Each session is designed to deliver strong cooling for at least 20 minutes. Many customers go longer depending on conditions.''\<rparr>,
     \<lparr>faq_q = ''When should I use it around the sauna?'',
      faq_a = ''Most men prefer after the hot room, or between rounds. It is a simple cooldown habit.''\<rparr>,
     \<lparr>faq_q = ''Can I wear it every day?'',
      faq_a = ''Yes. Many customers use it daily, and add pads when they want cooling.''\<rparr>,
     \<lparr>faq_q = ''How do I wash it?'',
      faq_a = ''Remove the pad. Machine wash cold. Air dry or tumble low. Pads wipe clean and are reusable.''\<rparr>]"

definition reviews :: "review list" where
  "reviews =
    [\<lparr>review_text = ''Sauna nights feel different now. Simple, premium, and actually discreet.'',
      author = ''Verified Buyer''\<rparr>,
     \<lparr>review_text = ''Feels like high end underwear. The cooling pocket is genius.'',
      author = ''Verified Buyer''\<rparr>,
     \<lparr>review_text = ''Easy habit. I keep a few pads ready and just swap.'',
      author = ''Verified Buyer''\<rparr>]"

declare COLORS_def [catalog_data] SIZES_def [catalog_data] bundles_def [catalog_data]
  galleryImages_def [catalog_data] faqs_def [catalog_data] reviews_def [catalog_data]

section \<open>Facts on the catalog\<close>

lemma catalog_lengths [simp]:
  "length COLORS = 4" "length SIZES = 4" "length bundles = 3" "length faqs = 5"
  "length reviews = 3" "length galleryImages = 9"
  by (simp_all add: catalog_data)

lemma distinct_color_names [simp]: "distinct (map color_name COLORS)"
  by (simp add: COLORS_def)

lemma distinct_SIZES [simp]: "distinct SIZES"
  by (simp add: SIZES_def)

end
