(* ===== verification/Configurator.thy ===== *)
theory Configurator
  imports Catalog
begin

text \<open>
  The interaction state of the page root \<open>App\<close> (\<open>src/App.tsx\<close>): the three
  \<open>React.useState\<close> fields \<open>selectedColor\<close>, \<open>selectedSize\<close> and \<open>activeFaq\<close>
  (lines 155--157), the click handlers of the colour swatches and size buttons of the
  bundle configurator (lines 459--486), of the FAQ accordion (lines 599--618) and of the
  bundle cards' call-to-action buttons (lines 494--538), and how each control renders
  its selected or expanded look. A click on a button that is not rendered (an index
  past the end of the array the buttons are mapped from) is not an event of the page:
  the step function returns \<open>None\<close> for it.

  The lemmas show the handlers' behaviour on every branch, the invariant that the
  three fields stay within the catalog, the accordion's refinement of the spec's
  \<open>{closed, open(i)}\<close> machine, and the selection properties of spec section 8:
  exactly one colour and one size marked, at most one FAQ entry expanded.
\<close>

section \<open>State and events\<close>

record app_state =
  selectedColor :: color_entry
  selectedSize :: string
  activeFaq :: "nat option"

text \<open>\<open>useState(COLORS[0])\<close>, \<open>useState(SIZES[1])\<close>, \<open>useState<number | null>(null)\<close>.\<close>

definition app_init :: app_state where
  "app_init = \<lparr>selectedColor = COLORS ! 0, selectedSize = SIZES ! 1, activeFaq = None\<rparr>"

text \<open>
  The clicks the page's root handles; each carries the position of the clicked button
  in the array its buttons are rendered from (\<open>COLORS.map\<close>, \<open>SIZES.map\<close>,
  \<open>faqs.map\<close>, \<open>bundles.map\<close>).
\<close>

datatype app_event =
    ClickColor nat
  | ClickSize nat
  | ClickFaq nat
  | ClickBundleCta nat

text \<open>The FAQ button's handler: \<open>setActiveFaq(activeFaq === idx ? null : idx)\<close>.\<close>

definition toggle_faq :: "nat option \<Rightarrow> nat \<Rightarrow> nat option" where
  "toggle_faq active idx = (if active = Some idx then None else Some idx)"

text \<open>
  One click. Colour: \<open>setSelectedColor(color)\<close>; size: \<open>setSelectedSize(size)\<close>;
  FAQ: the toggle above; a bundle's CTA \<open>Button\<close> has no \<open>onClick\<close>, so its click
  changes nothing.
\<close>

fun app_step :: "app_state \<Rightarrow> app_event \<Rightarrow> app_state option" where
  "app_step st (ClickColor i) =
     (if i < length COLORS then Some (st\<lparr>selectedColor := COLORS ! i\<rparr>) else None)"
| "app_step st (ClickSize i) =
     (if i < length SIZES then Some (st\<lparr>selectedSize := SIZES ! i\<rparr>) else None)"
| "app_step st (ClickFaq idx) =
     (if idx < length faqs then Some (st\<lparr>activeFaq := toggle_faq (activeFaq st) idx\<rparr>) else None)"
| "app_step st (ClickBundleCta i) =
     (if i < length bundles then Some st else None)"

text \<open>A sequence of clicks, dispatched in order; a click on no button stops the run.\<close>

fun app_run :: "app_state \<Rightarrow> app_event list \<Rightarrow> app_state option" where
  "app_run st [] = Some st"
| "app_run st (e # es) = (case app_step st e of None \<Rightarrow> None | Some st' \<Rightarrow> app_run st' es)"

inductive app_reachable :: "app_state \<Rightarrow> bool" where
  init: "app_reachable app_init"
| step: "app_reachable st \<Longrightarrow> app_step st e = Some st' \<Longrightarrow> app_reachable st'"

section \<open>Rendering of the selection\<close>

text \<open>
  A swatch is drawn selected (ring, scale, name label) when
  \<open>selectedColor.name === color.name\<close>; a size button when
  \<open>selectedSize === size\<close>; a FAQ panel is expanded (\<open>height: 'auto'\<close>,
  \<open>opacity: 1\<close>, icon rotated) when \<open>activeFaq === idx\<close>.
\<close>

definition color_selected :: "app_state \<Rightarrow> color_entry \<Rightarrow> bool" where
  "color_selected st color \<longleftrightarrow> color_name (selectedColor st) = color_name color"

definition size_selected :: "app_state \<Rightarrow> string \<Rightarrow> bool" where
  "size_selected st sz \<longleftrightarrow> selectedSize st = sz"

datatype panel_height = HeightAuto | HeightPx real

definition faq_panel_animate :: "app_state \<Rightarrow> nat \<Rightarrow> panel_height \<times> real" where
  "faq_panel_animate st idx =
     (if activeFaq st = Some idx then HeightAuto else HeightPx 0,
      if activeFaq st = Some idx then 1 else 0)"

definition faq_expanded :: "app_state \<Rightarrow> nat \<Rightarrow> bool" where
  "faq_expanded st idx \<longleftrightarrow> fst (faq_panel_animate st idx) = HeightAuto"

text \<open>The swatches, size buttons and panels drawn selected or expanded.\<close>

definition selected_swatches :: "app_state \<Rightarrow> color_entry list" where
  "selected_swatches st = filter (color_selected st) COLORS"

definition selected_size_buttons :: "app_state \<Rightarrow> string list" where
  "selected_size_buttons st = filter (size_selected st) SIZES"

definition expanded_panels :: "app_state \<Rightarrow> nat list" where
  "expanded_panels st = filter (faq_expanded st) [0..<length faqs]"

section \<open>The spec's accordion\<close>

text \<open>Spec section 4.2: states \<open>closed\<close> and \<open>open(i)\<close>, one activation rule.\<close>

datatype accordion = Closed | Open nat

fun accordion_activate :: "accordion \<Rightarrow> nat \<Rightarrow> accordion" where
  "accordion_activate Closed i = Open i"
| "accordion_activate (Open j) i = (if i = j then Closed else Open i)"

definition accordion_of :: "app_state \<Rightarrow> accordion" where
  "accordion_of st = (case activeFaq st of None \<Rightarrow> Closed | Some i \<Rightarrow> Open i)"

section \<open>Invariant\<close>

definition app_inv :: "app_state \<Rightarrow> bool" where
  "app_inv st \<longleftrightarrow>
     selectedColor st \<in> set COLORS \<and> selectedSize st \<in> set SIZES \<and>
     (case activeFaq st of None \<Rightarrow> True | Some i \<Rightarrow> i < length faqs)"

declare toggle_faq_def [handler_simps] app_init_def [handler_simps]

section \<open>Lemmas\<close>

subsection \<open>Invariant\<close>

lemma app_inv_init: "app_inv app_init"
  by (simp add: app_inv_def app_init_def COLORS_def SIZES_def)

lemma app_step_inv:
  assumes "app_inv st" and "app_step st e = Some st'"
  shows "app_inv st'"
  using assms
  by (cases e) (auto simp: app_inv_def toggle_faq_def split: if_splits option.splits)

lemma app_reachable_inv: "app_reachable st \<Longrightarrow> app_inv st"
proof (induction rule: app_reachable.induct)
  case init
  then show ?case by (rule app_inv_init)
next
  case (step st e st')
  then show ?case by (blast intro: app_step_inv)
qed

lemma app_run_reachable:
  "app_reachable st \<Longrightarrow> app_run st es = Some st' \<Longrightarrow> app_reachable st'"
proof (induction es arbitrary: st)
  case Nil
  then show ?case by simp
next
  case (Cons e es)
  then obtain s1 where s1: "app_step st e = Some s1" and run: "app_run s1 es = Some st'"
    by (auto split: option.splits)
  from Cons.prems(1) s1 have "app_reachable s1" by (rule app_reachable.step)
  from this run show ?case by (rule Cons.IH)
qed

lemma app_run_append:
  "app_run st (es @ fs) = (case app_run st es of None \<Rightarrow> None | Some st' \<Rightarrow> app_run st' fs)"
  by (induction es arbitrary: st) (simp_all split: option.splits)

text \<open>At most one FAQ click moves the accordion from any valid position to any other.\<close>

lemma faq_events_reach:
  assumes "case target of None \<Rightarrow> True | Some j \<Rightarrow> j < length faqs"
    and "case activeFaq st of None \<Rightarrow> True | Some i \<Rightarrow> i < length faqs"
  shows "\<exists>es. length es \<le> 1 \<and> app_run st es = Some (st\<lparr>activeFaq := target\<rparr>)"
proof (cases target)
  case None
  show ?thesis
  proof (cases "activeFaq st")
    case None
    with \<open>target = None\<close> show ?thesis by (intro exI [of _ "[]"]) simp
  next
    case (Some i)
    with assms(2) \<open>target = None\<close> show ?thesis
      by (intro exI [of _ "[ClickFaq i]"]) (simp add: toggle_faq_def)
  qed
next
  case (Some j)
  show ?thesis
  proof (cases "activeFaq st = Some j")
    case True
    with \<open>target = Some j\<close> show ?thesis by (intro exI [of _ "[]"]) simp
  next
    case False
    with assms(1) \<open>target = Some j\<close> show ?thesis
      by (intro exI [of _ "[ClickFaq j]"]) (simp add: toggle_faq_def)
  qed
qed

subsection \<open>Rendering from the invariant\<close>

lemmas app_render_simps = color_selected_def [abs_def] size_selected_def [abs_def]
  faq_expanded_def [abs_def] faq_panel_animate_def
  selected_swatches_def selected_size_buttons_def expanded_panels_def

fun_cases app_step_ClickFaqE: "app_step st (ClickFaq idx) = Some st'"

lemma app_step_ClickFaq:
  "idx < length faqs \<Longrightarrow>
   app_step st (ClickFaq idx) = Some (st\<lparr>activeFaq := toggle_faq (activeFaq st) idx\<rparr>)"
  by simp

lemma app_init_reachable_faq:
  "i < length faqs \<Longrightarrow> app_reachable (app_init\<lparr>activeFaq := Some i\<rparr>)"
  by (rule app_reachable.step [OF app_reachable.init, where e = "ClickFaq i"])
    (simp add: app_init_def toggle_faq_def)

subsection \<open>The accordion\<close>

text \<open>
  C1. Clicking FAQ entry \<open>idx\<close> (a rendered entry) always takes effect; afterwards entry
  \<open>idx\<close> is the only expanded panel, except when it was the open one, in which case no
  panel is expanded. This covers the three transitions of spec section 4.2.
\<close>

theorem faq_click_expands:
  assumes "idx < length faqs"
  shows "\<exists>st'. app_step st (ClickFaq idx) = Some st' \<and>
           expanded_panels st' = (if activeFaq st = Some idx then [] else [idx])"
proof -
  let ?st' = "st\<lparr>activeFaq := toggle_faq (activeFaq st) idx\<rparr>"
  have step: "app_step st (ClickFaq idx) = Some ?st'"
    using assms by (rule app_step_ClickFaq)
  have "expanded_panels ?st' = (if activeFaq st = Some idx then [] else [idx])"
    using assms by (simp add: app_render_simps toggle_faq_def filter_index_member)
  with step show ?thesis by blast
qed

theorem faq_click_expands_witness:
  "(2::nat) < length faqs \<and>
   (\<exists>st'. app_step app_init (ClickFaq 2) = Some st' \<and>
      expanded_panels st' = (if activeFaq app_init = Some 2 then [] else [2]))"
  using faq_click_expands [of 2 app_init] by simp

text \<open>
  C2. In every state the page can reach, at most one FAQ panel is expanded (the
  accordion, not independent toggles).
\<close>

theorem reachable_at_most_one_panel:
  "app_reachable st \<Longrightarrow> length (expanded_panels st) \<le> 1"
proof -
  assume "app_reachable st"
  then have "app_inv st" by (rule app_reachable_inv)
  then show ?thesis
    by (auto simp: app_inv_def app_render_simps filter_index_member split: option.splits)
qed

theorem reachable_at_most_one_panel_witness:
  "app_reachable (app_init\<lparr>activeFaq := Some 2\<rparr>) \<and>
   length (expanded_panels (app_init\<lparr>activeFaq := Some 2\<rparr>)) \<le> 1"
proof -
  have r: "app_reachable (app_init\<lparr>activeFaq := Some 2\<rparr>)"
    by (rule app_init_reachable_faq) simp
  show ?thesis using r reachable_at_most_one_panel [OF r] by simp
qed

text \<open>
  C3. In every reachable state exactly one colour swatch is drawn selected, and it is
  the swatch of the selected colour.
\<close>

theorem reachable_one_swatch_selected:
  "app_reachable st \<Longrightarrow> selected_swatches st = [selectedColor st]"
  by (drule app_reachable_inv) (simp add: app_inv_def app_render_simps filter_key_member')

theorem reachable_one_swatch_selected_witness:
  "app_reachable app_init \<and> selected_swatches app_init = [selectedColor app_init]"
  using reachable_one_swatch_selected [OF app_reachable.init] app_reachable.init by simp

text \<open>C4. In every reachable state exactly one size button is drawn selected: the selected size.\<close>

theorem reachable_one_size_selected:
  "app_reachable st \<Longrightarrow> selected_size_buttons st = [selectedSize st]"
  by (drule app_reachable_inv)
    (simp add: app_inv_def app_render_simps filter_key_member' [where f = id, simplified])

theorem reachable_one_size_selected_witness:
  "app_reachable app_init \<and> selected_size_buttons app_init = [selectedSize app_init]"
  using reachable_one_size_selected [OF app_reachable.init] app_reachable.init by simp

text \<open>
  C5. Every run of clicks from the initial state keeps the selection inside the
  catalog: the colour is one of \<open>COLORS\<close>, the size one of \<open>SIZES\<close>, and an open
  FAQ index addresses an entry of \<open>faqs\<close>.
\<close>

theorem app_run_keeps_inv:
  "app_run app_init es = Some st \<Longrightarrow> app_inv st"
  by (rule app_reachable_inv) (rule app_run_reachable [OF app_reachable.init])

theorem app_run_keeps_inv_witness:
  "app_run app_init [ClickColor 3, ClickSize 2, ClickFaq 4] =
     Some \<lparr>selectedColor = COLORS ! 3, selectedSize = SIZES ! 2, activeFaq = Some 4\<rparr> \<and>
   app_inv \<lparr>selectedColor = COLORS ! 3, selectedSize = SIZES ! 2, activeFaq = Some 4\<rparr>"
proof -
  have run: "app_run app_init [ClickColor 3, ClickSize 2, ClickFaq 4] =
     Some \<lparr>selectedColor = COLORS ! 3, selectedSize = SIZES ! 2, activeFaq = Some 4\<rparr>"
    by (simp add: app_init_def toggle_faq_def)
  show ?thesis using run app_run_keeps_inv [OF run] by simp
qed

text \<open>
  C6. Refinement: the FAQ handler implements the spec's accordion machine: the abstract
  state of the new \<open>activeFaq\<close> is the spec's activation of the old abstract state.
\<close>

theorem faq_refines_accordion:
  "app_step st (ClickFaq idx) = Some st' \<Longrightarrow>
   accordion_of st' = accordion_activate (accordion_of st) idx"
  by (erule app_step_ClickFaqE) (auto simp: accordion_of_def toggle_faq_def split: if_splits option.splits)

theorem faq_refines_accordion_witness:
  "app_step (app_init\<lparr>activeFaq := Some 1\<rparr>) (ClickFaq 3) = Some (app_init\<lparr>activeFaq := Some 3\<rparr>) \<and>
   accordion_of (app_init\<lparr>activeFaq := Some 3\<rparr>) =
     accordion_activate (accordion_of (app_init\<lparr>activeFaq := Some 1\<rparr>)) 3"
proof -
  have s: "app_step (app_init\<lparr>activeFaq := Some 1\<rparr>) (ClickFaq 3) = Some (app_init\<lparr>activeFaq := Some 3\<rparr>)"
    by (simp add: toggle_faq_def)
  show ?thesis using s faq_refines_accordion [OF s] by simp
qed

subsection \<open>Configurator\<close>

text \<open>
  C7. Clicking swatch \<open>i\<close> makes its colour the selection and the only swatch drawn
  selected, whatever was selected before, and leaves the size and the FAQ state
  untouched; clicking size button \<open>j\<close> likewise makes its size the selection and the
  only size drawn selected, and leaves the colour and the FAQ state untouched.
\<close>

theorem click_selects:
  "(i < length COLORS \<longrightarrow>
     (\<exists>st'. app_step st (ClickColor i) = Some st' \<and> selectedColor st' = COLORS ! i \<and>
        selected_swatches st' = [COLORS ! i] \<and>
        selectedSize st' = selectedSize st \<and> activeFaq st' = activeFaq st)) \<and>
   (j < length SIZES \<longrightarrow>
     (\<exists>st'. app_step st (ClickSize j) = Some st' \<and> selectedSize st' = SIZES ! j \<and>
        selected_size_buttons st' = [SIZES ! j] \<and>
        selectedColor st' = selectedColor st \<and> activeFaq st' = activeFaq st))"
proof (intro conjI impI)
  assume i: "i < length COLORS"
  have "selected_swatches (st\<lparr>selectedColor := COLORS ! i\<rparr>) = [COLORS ! i]"
    using i by (simp add: app_render_simps filter_key_member')
  with i show "\<exists>st'. app_step st (ClickColor i) = Some st' \<and> selectedColor st' = COLORS ! i \<and>
        selected_swatches st' = [COLORS ! i] \<and>
        selectedSize st' = selectedSize st \<and> activeFaq st' = activeFaq st" by simp
next
  assume j: "j < length SIZES"
  have "selected_size_buttons (st\<lparr>selectedSize := SIZES ! j\<rparr>) = [SIZES ! j]"
    using j by (simp add: app_render_simps filter_key_member' [where f = id, simplified])
  with j show "\<exists>st'. app_step st (ClickSize j) = Some st' \<and> selectedSize st' = SIZES ! j \<and>
        selected_size_buttons st' = [SIZES ! j] \<and>
        selectedColor st' = selectedColor st \<and> activeFaq st' = activeFaq st" by simp
qed

theorem click_selects_witness:
  "(\<exists>st'. app_step app_init (ClickColor 3) = Some st' \<and> selectedColor st' = COLORS ! 3 \<and>
      selected_swatches st' = [COLORS ! 3] \<and>
      selectedSize st' = selectedSize app_init \<and> activeFaq st' = activeFaq app_init) \<and>
   (\<exists>st'. app_step app_init (ClickSize 0) = Some st' \<and> selectedSize st' = SIZES ! 0 \<and>
      selected_size_buttons st' = [SIZES ! 0] \<and>
      selectedColor st' = selectedColor app_init \<and> activeFaq st' = activeFaq app_init)"
  using click_selects [of 3 app_init 0] by simp

text \<open>
  C23. Controllability: from every reachable state, every state satisfying the
  invariant (any colour of \<open>COLORS\<close>, any size of \<open>SIZES\<close>, any FAQ entry open or
  none) is reached by at most three clicks: a swatch, a size button, and at most one
  FAQ entry.
\<close>

theorem any_selection_within_three_clicks:
  assumes "app_reachable st" and "app_inv st'"
  shows "\<exists>es. length es \<le> 3 \<and> app_run st es = Some st'"
proof -
  from assms(2) have c: "selectedColor st' \<in> set COLORS" and s: "selectedSize st' \<in> set SIZES"
    and f: "case activeFaq st' of None \<Rightarrow> True | Some j \<Rightarrow> j < length faqs"
    by (simp_all add: app_inv_def)
  from c obtain i where i: "i < length COLORS" "COLORS ! i = selectedColor st'"
    by (auto simp: in_set_conv_nth)
  from s obtain k where k: "k < length SIZES" "SIZES ! k = selectedSize st'"
    by (auto simp: in_set_conv_nth)
  let ?st2 = "st\<lparr>selectedColor := selectedColor st', selectedSize := selectedSize st'\<rparr>"
  have run2: "app_run st [ClickColor i, ClickSize k] = Some ?st2"
    using i k by simp
  from assms(1) have "app_inv st" by (rule app_reachable_inv)
  then have "case activeFaq ?st2 of None \<Rightarrow> True | Some i \<Rightarrow> i < length faqs"
    by (simp add: app_inv_def)
  from faq_events_reach [OF f this] obtain fs where
    fs: "length fs \<le> 1" "app_run ?st2 fs = Some (?st2\<lparr>activeFaq := activeFaq st'\<rparr>)" by blast
  have "app_run st ([ClickColor i, ClickSize k] @ fs) = app_run ?st2 fs"
    by (simp only: app_run_append run2 option.case)
  also have "\<dots> = Some st'" using fs(2) by simp
  finally have "app_run st ([ClickColor i, ClickSize k] @ fs) = Some st'" .
  moreover have "length ([ClickColor i, ClickSize k] @ fs) \<le> 3" using fs by simp
  ultimately show ?thesis by blast
qed

theorem any_selection_within_three_clicks_witness:
  "app_reachable app_init \<and>
   app_inv \<lparr>selectedColor = COLORS ! 2, selectedSize = ''XL'', activeFaq = Some 4\<rparr> \<and>
   (\<exists>es. length es \<le> 3 \<and>
      app_run app_init es = Some \<lparr>selectedColor = COLORS ! 2, selectedSize = ''XL'', activeFaq = Some 4\<rparr>)"
proof -
  have inv: "app_inv \<lparr>selectedColor = COLORS ! 2, selectedSize = ''XL'', activeFaq = Some 4\<rparr>"
    by (simp add: app_inv_def COLORS_def SIZES_def)
  show ?thesis
    using any_selection_within_three_clicks [OF app_reachable.init inv] app_reachable.init inv
    by simp
qed

end
