(* ===== verification/Navbar.thy ===== *)
theory Navbar
  imports Prelude
begin

text \<open>
  The navigation bar of \<open>src/components/Navbar.tsx\<close>: its two \<open>useState\<close>
  booleans, the \<open>useEffect\<close> that subscribes \<open>handleScroll\<close> to the window's
  \<open>scroll\<close> event and removes it in its cleanup, the mobile-menu toggle, the mobile
  links, the two "Shop Bundles" buttons and the logo link to the top. The window is modelled only as far as the
  component uses it: its \<open>scrollY\<close> and its list of scroll listeners, with the DOM's
  \<open>addEventListener\<close> (no duplicates) and \<open>removeEventListener\<close>. Every run of
  the effect creates a new \<open>handleScroll\<close> closure, so listeners are numbered; a
  listener left behind by an unmounted instance calls the setter of a dead component,
  which React ignores. Events on controls that are not rendered (the overlay's links
  when the menu is closed, any control when the bar is not mounted) are impossible:
  the step returns \<open>None\<close>.
\<close>

section \<open>Component state and handlers\<close>

record navbar_state =
  isScrolled :: bool
  isMobileMenuOpen :: bool

definition navbar_init :: navbar_state where
  "navbar_init = \<lparr>isScrolled = False, isMobileMenuOpen = False\<rparr>"

text \<open>\<open>handleScroll\<close>: \<open>setIsScrolled(window.scrollY > 50)\<close>.\<close>

definition handleScroll :: "px \<Rightarrow> navbar_state \<Rightarrow> navbar_state" where
  "handleScroll y st = st\<lparr>isScrolled := 50 < y\<rparr>"

record nav_link =
  link_name :: string
  link_href :: string

definition navLinks :: "nav_link list" where
  "navLinks =
    [\<lparr>link_name = ''Shop'', link_href = ''#bundles''\<rparr>,
     \<lparr>link_name = ''How it works'', link_href = ''#how-it-works''\<rparr>,
     \<lparr>link_name = ''Bundles'', link_href = ''#bundles''\<rparr>,
     \<lparr>link_name = ''FAQ'', link_href = ''#faq''\<rparr>]"

text \<open>The \<open>nav\<close> element's class list: opaque and blurred once scrolled, transparent before.\<close>

definition nav_class :: "bool \<Rightarrow> css_class" where
  "nav_class scrolled =
     ''fixed top-0 left-0 right-0 z-40 transition-all duration-300 border-b '' @
     (if scrolled then ''bg-onyx/80 backdrop-blur-md border-white/10 py-4''
      else ''bg-transparent border-transparent py-6'')"

section \<open>The window and the listener lifecycle\<close>

type_synonym listener = nat

record window =
  scrollY :: px
  listeners :: "listener list"

text \<open>The DOM's listener list: adding a listener already present does nothing.\<close>

definition addEventListener :: "listener \<Rightarrow> listener list \<Rightarrow> listener list" where
  "addEventListener h ls = (if h \<in> set ls then ls else ls @ [h])"

definition removeEventListener :: "listener \<Rightarrow> listener list \<Rightarrow> listener list" where
  "removeEventListener h ls = removeAll h ls"

text \<open>
  The bar with its environment: the window, the mounted instance's state (\<open>None\<close>
  when the bar is not on the page), the listener its effect registered (what the
  cleanup removes), and the number of the next closure an effect run creates.
\<close>

record nav_world =
  win :: window
  nav :: "navbar_state option"
  subscription :: "listener option"
  next_listener :: nat

definition nav_world_init :: "px \<Rightarrow> nav_world" where
  "nav_world_init y0 =
     \<lparr>win = \<lparr>scrollY = y0, listeners = []\<rparr>, nav = None, subscription = None, next_listener = 0\<rparr>"

text \<open>
  One listener runs: the live instance's \<open>handleScroll\<close> updates its state with the
  window's offset; a stale closure changes nothing.
\<close>

definition run_listener :: "nav_world \<Rightarrow> listener \<Rightarrow> nav_world" where
  "run_listener w h =
     (case nav w of
        None \<Rightarrow> w
      | Some st \<Rightarrow>
          if subscription w = Some h then w\<lparr>nav := Some (handleScroll (scrollY (win w)) st)\<rparr>
          else w)"

definition dispatch_scroll :: "nav_world \<Rightarrow> nav_world" where
  "dispatch_scroll w = fold (\<lambda>h w'. run_listener w' h) (listeners (win w)) w"

text \<open>The window scrolls to offset \<open>y\<close>: the offset changes, then its scroll listeners run.\<close>

definition scroll_window :: "px \<Rightarrow> nav_world \<Rightarrow> nav_world" where
  "scroll_window y w = dispatch_scroll (w\<lparr>win := (win w)\<lparr>scrollY := y\<rparr>\<rparr>)"

datatype nav_event =
    Mount
  | Unmount
  | UserScroll px
  | ToggleMenu
  | MobileLinkClick nat
  | MobileShopClick
  | DesktopShopClick
  | DesktopLinkClick nat
  | LogoClick

text \<open>
  Mount renders with the initial state and runs the effect (subscribe a fresh
  \<open>handleScroll\<close>); Unmount runs the cleanup. A scroll sets the window's offset and
  runs the listeners in order. The toggle flips the menu; a mobile link or the mobile
  "Shop Bundles" button (rendered only while the menu is open) closes it; the desktop
  button and the desktop links (plain anchors) only scroll. The logo is the anchor
  \<open>href="#"\<close>: following it scrolls the document to its top, and the window's
  scroll listeners run as for any scroll.
\<close>

fun nav_step :: "nav_world \<Rightarrow> nav_event \<Rightarrow> nav_world option" where
  "nav_step w Mount =
     (case nav w of
        Some _ \<Rightarrow> None
      | None \<Rightarrow>
          let h = next_listener w in
          Some (w\<lparr>nav := Some navbar_init, subscription := Some h, next_listener := Suc h,
                  win := (win w)\<lparr>listeners := addEventListener h (listeners (win w))\<rparr>\<rparr>))"
| "nav_step w Unmount =
     (case nav w of
        None \<Rightarrow> None
      | Some _ \<Rightarrow>
          Some (w\<lparr>nav := None, subscription := None,
                  win := (case subscription w of
                            None \<Rightarrow> win w
                          | Some h \<Rightarrow> (win w)\<lparr>listeners := removeEventListener h (listeners (win w))\<rparr>)\<rparr>))"
| "nav_step w (UserScroll y) = Some (scroll_window y w)"
| "nav_step w ToggleMenu =
     (case nav w of
        None \<Rightarrow> None
      | Some st \<Rightarrow> Some (w\<lparr>nav := Some (st\<lparr>isMobileMenuOpen := \<not> isMobileMenuOpen st\<rparr>)\<rparr>))"
| "nav_step w (MobileLinkClick i) =
     (case nav w of
        None \<Rightarrow> None
      | Some st \<Rightarrow>
          if isMobileMenuOpen st \<and> i < length navLinks
          then Some (w\<lparr>nav := Some (st\<lparr>isMobileMenuOpen := False\<rparr>)\<rparr>) else None)"
| "nav_step w MobileShopClick =
     (case nav w of
        None \<Rightarrow> None
      | Some st \<Rightarrow>
          if isMobileMenuOpen st then Some (w\<lparr>nav := Some (st\<lparr>isMobileMenuOpen := False\<rparr>)\<rparr>)
          else None)"
| "nav_step w DesktopShopClick = (case nav w of None \<Rightarrow> None | Some _ \<Rightarrow> Some w)"
| "nav_step w (DesktopLinkClick i) =
     (case nav w of None \<Rightarrow> None | Some _ \<Rightarrow> if i < length navLinks then Some w else None)"
| "nav_step w LogoClick =
     (case nav w of
        None \<Rightarrow> None
      | Some _ \<Rightarrow> Some (scroll_window 0 w))"

text \<open>
  Where an event sends the page: the anchor of a link's \<open>href\<close>, or the element
  \<open>'bundles'\<close> that the "Shop Bundles" buttons scroll into view.
\<close>

definition anchor_target :: "string \<Rightarrow> dom_id option" where
  "anchor_target href = (case href of CHR ''#'' # i \<Rightarrow> Some i | _ \<Rightarrow> None)"

fun nav_scroll_target :: "nav_event \<Rightarrow> dom_id option" where
  "nav_scroll_target (MobileLinkClick i) =
     (if i < length navLinks then anchor_target (link_href (navLinks ! i)) else None)"
| "nav_scroll_target MobileShopClick = Some ''bundles''"
| "nav_scroll_target DesktopShopClick = Some ''bundles''"
| "nav_scroll_target (DesktopLinkClick i) =
     (if i < length navLinks then anchor_target (link_href (navLinks ! i)) else None)"
| "nav_scroll_target _ = None"

text \<open>A sequence of events handled in order; an impossible event stops the run.\<close>

fun nav_run :: "nav_world \<Rightarrow> nav_event list \<Rightarrow> nav_world option" where
  "nav_run w [] = Some w"
| "nav_run w (e # es) = (case nav_step w e of None \<Rightarrow> None | Some w' \<Rightarrow> nav_run w' es)"

inductive nav_reachable :: "nav_world \<Rightarrow> bool" where
  init: "nav_reachable (nav_world_init y0)"
| step: "nav_reachable w \<Longrightarrow> nav_step w e = Some w' \<Longrightarrow> nav_reachable w'"

section \<open>Invariant\<close>

text \<open>
  The subscription discipline: the window holds exactly the live instance's listener,
  and nothing when the bar is not mounted.
\<close>

definition nav_inv :: "nav_world \<Rightarrow> bool" where
  "nav_inv w \<longleftrightarrow>
     (case subscription w of
        None \<Rightarrow> nav w = None \<and> listeners (win w) = []
      | Some h \<Rightarrow> nav w \<noteq> None \<and> listeners (win w) = [h] \<and> h < next_listener w)"

text \<open>What the bar shows agrees with the window: it is never opaque at an offset of 50 or less.\<close>

definition scroll_sound :: "nav_world \<Rightarrow> bool" where
  "scroll_sound w \<longleftrightarrow>
     (case nav w of None \<Rightarrow> True | Some st \<Rightarrow> \<not> isScrolled st \<or> 50 < scrollY (win w))"

declare handleScroll_def [handler_simps] navbar_init_def [handler_simps]

section \<open>Lemmas\<close>

subsection \<open>Dispatching a scroll\<close>

lemma run_listener_frame:
  "win (run_listener w h) = win w \<and> subscription (run_listener w h) = subscription w \<and>
   next_listener (run_listener w h) = next_listener w \<and>
   (nav (run_listener w h) = None \<longleftrightarrow> nav w = None) \<and>
   map_option isMobileMenuOpen (nav (run_listener w h)) = map_option isMobileMenuOpen (nav w)"
  by (simp add: run_listener_def handleScroll_def split: option.splits)

lemma fold_run_listener_frame:
  "win (fold (\<lambda>h w'. run_listener w' h) ls w) = win w \<and>
   subscription (fold (\<lambda>h w'. run_listener w' h) ls w) = subscription w \<and>
   next_listener (fold (\<lambda>h w'. run_listener w' h) ls w) = next_listener w \<and>
   (nav (fold (\<lambda>h w'. run_listener w' h) ls w) = None \<longleftrightarrow> nav w = None) \<and>
   map_option isMobileMenuOpen (nav (fold (\<lambda>h w'. run_listener w' h) ls w)) =
     map_option isMobileMenuOpen (nav w)"
  by (induction ls arbitrary: w) (simp_all add: run_listener_frame)

lemma dispatch_scroll_frame:
  "win (dispatch_scroll w) = win w \<and> subscription (dispatch_scroll w) = subscription w \<and>
   next_listener (dispatch_scroll w) = next_listener w \<and>
   (nav (dispatch_scroll w) = None \<longleftrightarrow> nav w = None) \<and>
   map_option isMobileMenuOpen (nav (dispatch_scroll w)) = map_option isMobileMenuOpen (nav w)"
  by (simp add: dispatch_scroll_def fold_run_listener_frame)

lemma fold_run_listener_unmounted:
  "nav w = None \<Longrightarrow> fold (\<lambda>h w'. run_listener w' h) ls w = w"
  by (induction ls) (simp_all add: run_listener_def)

lemma dispatch_scroll_unmounted: "nav w = None \<Longrightarrow> dispatch_scroll w = w"
  by (simp add: dispatch_scroll_def fold_run_listener_unmounted)

lemma dispatch_scroll_single:
  "listeners (win w) = [h] \<Longrightarrow> subscription w = Some h \<Longrightarrow> nav w = Some st \<Longrightarrow>
   dispatch_scroll w = w\<lparr>nav := Some (handleScroll (scrollY (win w)) st)\<rparr>"
  by (simp add: dispatch_scroll_def run_listener_def)

lemma scroll_window_frame:
  "win (scroll_window y w) = (win w)\<lparr>scrollY := y\<rparr> \<and>
   subscription (scroll_window y w) = subscription w \<and>
   next_listener (scroll_window y w) = next_listener w \<and>
   (nav (scroll_window y w) = None \<longleftrightarrow> nav w = None) \<and>
   map_option isMobileMenuOpen (nav (scroll_window y w)) = map_option isMobileMenuOpen (nav w)"
  using dispatch_scroll_frame [of "w\<lparr>win := (win w)\<lparr>scrollY := y\<rparr>\<rparr>"]
  by (simp add: scroll_window_def)

lemma scroll_window_unmounted:
  "nav w = None \<Longrightarrow> scroll_window y w = w\<lparr>win := (win w)\<lparr>scrollY := y\<rparr>\<rparr>"
  by (simp add: scroll_window_def dispatch_scroll_unmounted)

subsection \<open>Invariant\<close>

lemma nav_inv_init: "nav_inv (nav_world_init y0)"
  by (simp add: nav_inv_def nav_world_init_def)

lemma nav_inv_unmounted: "nav_inv w \<Longrightarrow> nav w = None \<Longrightarrow> subscription w = None \<and> listeners (win w) = []"
  by (auto simp: nav_inv_def split: option.splits)

lemma nav_inv_mounted:
  "nav_inv w \<Longrightarrow> nav w = Some st \<Longrightarrow>
   \<exists>h. subscription w = Some h \<and> listeners (win w) = [h] \<and> h < next_listener w"
  by (auto simp: nav_inv_def split: option.splits)

lemma scroll_window_mounted:
  assumes inv: "nav_inv w" and mounted: "nav w = Some st"
  shows "scroll_window y w =
           w\<lparr>win := (win w)\<lparr>scrollY := y\<rparr>, nav := Some (st\<lparr>isScrolled := 50 < y\<rparr>)\<rparr>"
proof -
  from inv mounted obtain h where "subscription w = Some h" and "listeners (win w) = [h]"
    by (blast dest: nav_inv_mounted)
  with mounted show ?thesis by (simp add: scroll_window_def dispatch_scroll_single handleScroll_def)
qed

lemma scroll_window_inv: "nav_inv w \<Longrightarrow> nav_inv (scroll_window y w)"
  using scroll_window_frame [of y w] by (simp add: nav_inv_def split: option.splits)

lemma nav_reachable_scroll_window: "nav_reachable w \<Longrightarrow> nav_reachable (scroll_window y w)"
  by (rule nav_reachable.step [where e = "UserScroll y"]) simp_all

lemma scroll_window_sound: "nav_inv w \<Longrightarrow> scroll_sound (scroll_window y w)"
  by (cases "nav w") (simp_all add: scroll_window_unmounted scroll_window_mounted scroll_sound_def)

lemma nav_step_inv:
  assumes inv: "nav_inv w" and step: "nav_step w e = Some w'"
  shows "nav_inv w'"
proof (cases e)
  case Mount
  with step have "nav w = None" by (auto split: option.splits)
  with inv have "subscription w = None \<and> listeners (win w) = []" by (rule nav_inv_unmounted)
  with step Mount \<open>nav w = None\<close> show ?thesis
    by (auto simp: nav_inv_def addEventListener_def Let_def)
next
  case Unmount
  with step obtain st where "nav w = Some st" by (auto split: option.splits)
  with inv obtain h where "subscription w = Some h" and "listeners (win w) = [h]"
    by (blast dest: nav_inv_mounted)
  with step Unmount \<open>nav w = Some st\<close> show ?thesis
    by (auto simp: nav_inv_def removeEventListener_def)
next
  case (UserScroll y)
  with step inv show ?thesis by (auto intro: scroll_window_inv)
next
  case LogoClick
  with step inv scroll_window_inv [OF inv, of 0] show ?thesis by (auto simp: nav_inv_def split: option.splits)
qed (use inv step in \<open>auto simp: nav_inv_def split: option.splits if_splits\<close>)

lemma nav_reachable_inv: "nav_reachable w \<Longrightarrow> nav_inv w"
proof (induction rule: nav_reachable.induct)
  case (init y0)
  show ?case by (rule nav_inv_init)
next
  case (step w e w')
  then show ?case by (blast intro: nav_step_inv)
qed

lemma nav_step_scroll_sound:
  assumes inv: "nav_inv w" and snd: "scroll_sound w" and step: "nav_step w e = Some w'"
  shows "scroll_sound w'"
proof (cases e)
  case (UserScroll y)
  with step inv show ?thesis by (auto intro: scroll_window_sound)
next
  case LogoClick
  with step inv show ?thesis by (auto intro: scroll_window_sound split: option.splits)
qed (use snd step in \<open>auto simp: scroll_sound_def navbar_init_def Let_def
                          split: option.splits if_splits\<close>)

lemma nav_reachable_scroll_sound: "nav_reachable w \<Longrightarrow> scroll_sound w"
proof (induction rule: nav_reachable.induct)
  case (init y0)
  show ?case by (simp add: scroll_sound_def nav_world_init_def)
next
  case (step w e w')
  then show ?case by (blast intro: nav_step_scroll_sound nav_reachable_inv)
qed

lemma nav_reachable_mount:
  "nav_reachable (nav_world_init y0\<lparr>win := \<lparr>scrollY = y0, listeners = [0]\<rparr>,
     nav := Some navbar_init, subscription := Some 0, next_listener := 1\<rparr>)"
  by (rule nav_reachable.step [OF nav_reachable.init [of y0], where e = Mount])
    (simp add: nav_world_init_def addEventListener_def)

lemma nav_scroll_mounted:
  assumes inv: "nav_inv w" and mounted: "nav w = Some st"
  shows "nav_step w (UserScroll y) =
           Some (w\<lparr>win := (win w)\<lparr>scrollY := y\<rparr>, nav := Some (st\<lparr>isScrolled := 50 < y\<rparr>)\<rparr>)"
  using scroll_window_mounted [OF inv mounted] by simp

lemma nav_run_scrolls:
  "nav_inv w \<Longrightarrow> nav w = Some st \<Longrightarrow> ys \<noteq> [] \<Longrightarrow>
   \<exists>w'. nav_run w (map UserScroll ys) = Some w' \<and> scrollY (win w') = last ys \<and>
        nav w' = Some (st\<lparr>isScrolled := 50 < last ys\<rparr>)"
proof (induction ys arbitrary: w st)
  case Nil
  then show ?case by simp
next
  case (Cons y ys)
  let ?w1 = "w\<lparr>win := (win w)\<lparr>scrollY := y\<rparr>, nav := Some (st\<lparr>isScrolled := 50 < y\<rparr>)\<rparr>"
  have step: "nav_step w (UserScroll y) = Some ?w1"
    using Cons.prems(1,2) by (rule nav_scroll_mounted)
  show ?case
  proof (cases "ys = []")
    case True
    with step show ?thesis by simp
  next
    case False
    have "nav_inv ?w1" using Cons.prems(1) step by (rule nav_step_inv)
    from Cons.IH [OF this _ False] obtain w' where
      "nav_run ?w1 (map UserScroll ys) = Some w'" and "scrollY (win w') = last ys" and
      "nav w' = Some (st\<lparr>isScrolled := 50 < y\<rparr>\<lparr>isScrolled := 50 < last ys\<rparr>)"
      by auto
    with step False show ?thesis by simp
  qed
qed

subsection \<open>Properties\<close>

text \<open>
  C8. While the bar is mounted, a scroll to offset \<open>y\<close> sets \<open>isScrolled\<close> to
  \<open>y > 50\<close> and nothing else of its state: the subscription delivers every scroll
  event to the live instance's handler.
\<close>

theorem scroll_sets_isScrolled:
  assumes "nav_reachable w" and "nav w = Some st"
  shows "\<exists>w'. nav_step w (UserScroll y) = Some w' \<and> scrollY (win w') = y \<and>
           nav w' = Some (st\<lparr>isScrolled := 50 < y\<rparr>)"
proof -
  from assms have "nav_inv w" by (blast intro: nav_reachable_inv)
  from nav_scroll_mounted [OF this assms(2)] show ?thesis by simp
qed

theorem scroll_sets_isScrolled_witness:
  "nav_reachable (nav_world_init 0\<lparr>win := \<lparr>scrollY = 0, listeners = [0]\<rparr>,
     nav := Some navbar_init, subscription := Some 0, next_listener := 1\<rparr>) \<and>
   (\<exists>w'. nav_step (nav_world_init 0\<lparr>win := \<lparr>scrollY = 0, listeners = [0]\<rparr>,
       nav := Some navbar_init, subscription := Some 0, next_listener := 1\<rparr>) (UserScroll 120) = Some w' \<and>
     scrollY (win w') = 120 \<and> nav w' = Some (navbar_init\<lparr>isScrolled := 50 < (120::real)\<rparr>))"
  using nav_reachable_mount [of 0]
    scroll_sets_isScrolled [OF nav_reachable_mount [of 0], of navbar_init 120]
  by simp

text \<open>
  C9. Scoped subscription: in every reachable configuration the window holds exactly
  the live instance's scroll listener, and none at all when the bar is not mounted; no
  listener is left dangling by a teardown.
\<close>

theorem reachable_no_dangling_listener:
  "nav_reachable w \<Longrightarrow>
   listeners (win w) = (case subscription w of None \<Rightarrow> [] | Some h \<Rightarrow> [h]) \<and>
   (nav w = None \<longleftrightarrow> subscription w = None)"
  by (drule nav_reachable_inv) (auto simp: nav_inv_def split: option.splits)

theorem reachable_no_dangling_listener_witness:
  "nav_reachable (nav_world_init 0\<lparr>win := \<lparr>scrollY = 0, listeners = [0]\<rparr>,
     nav := Some navbar_init, subscription := Some 0, next_listener := 1\<rparr>) \<and>
   listeners (win (nav_world_init 0\<lparr>win := \<lparr>scrollY = 0, listeners = [0]\<rparr>,
     nav := Some navbar_init, subscription := Some 0, next_listener := 1\<rparr>)) = [0]"
  using nav_reachable_mount [of 0] reachable_no_dangling_listener [OF nav_reachable_mount [of 0]]
  by simp

text \<open>
  C10. Mounting the bar and tearing it down again leaves the window's listener list as
  it was (acquire on mount, release on unmount).
\<close>

theorem mount_unmount_restores_listeners:
  assumes "nav_reachable w" and "nav w = None"
  shows "\<exists>w1 w2. nav_step w Mount = Some w1 \<and> nav_step w1 Unmount = Some w2 \<and>
           listeners (win w2) = listeners (win w) \<and> nav w2 = None"
proof -
  from assms have "nav_inv w" by (blast intro: nav_reachable_inv)
  from this assms(2) have "subscription w = None \<and> listeners (win w) = []"
    by (rule nav_inv_unmounted)
  with assms(2) show ?thesis
    by (simp add: addEventListener_def removeEventListener_def Let_def)
qed

theorem mount_unmount_restores_listeners_witness:
  "nav_reachable (nav_world_init 0) \<and> nav (nav_world_init 0) = None \<and>
   (\<exists>w1 w2. nav_step (nav_world_init 0) Mount = Some w1 \<and> nav_step w1 Unmount = Some w2 \<and>
      listeners (win w2) = listeners (win (nav_world_init 0)) \<and> nav w2 = None)"
  using mount_unmount_restores_listeners [OF nav_reachable.init [of 0]] nav_reachable.init [of 0]
  by (simp add: nav_world_init_def)

text \<open>
  C11. The mobile menu: the toggle flips it; a link of the open overlay closes it and
  sends the page to the link's anchor; the overlay's "Shop Bundles" button closes it and
  scrolls to the bundles section.
\<close>

theorem mobile_menu_handlers:
  assumes "nav w = Some st"
  shows "(\<exists>w'. nav_step w ToggleMenu = Some w' \<and>
            nav w' = Some (st\<lparr>isMobileMenuOpen := \<not> isMobileMenuOpen st\<rparr>)) \<and>
         (isMobileMenuOpen st \<and> i < length navLinks \<longrightarrow>
            (\<exists>w'. nav_step w (MobileLinkClick i) = Some w' \<and>
               nav w' = Some (st\<lparr>isMobileMenuOpen := False\<rparr>) \<and>
               nav_scroll_target (MobileLinkClick i) = anchor_target (link_href (navLinks ! i)))) \<and>
         (isMobileMenuOpen st \<longrightarrow>
            (\<exists>w'. nav_step w MobileShopClick = Some w' \<and>
               nav w' = Some (st\<lparr>isMobileMenuOpen := False\<rparr>) \<and>
               nav_scroll_target MobileShopClick = Some ''bundles'')) \<and>
         (\<not> isMobileMenuOpen st \<longrightarrow> nav_step w (MobileLinkClick i) = None)"
  using assms by simp

theorem mobile_menu_handlers_witness:
  "nav (nav_world_init 0\<lparr>nav := Some (navbar_init\<lparr>isMobileMenuOpen := True\<rparr>)\<rparr>) =
     Some (navbar_init\<lparr>isMobileMenuOpen := True\<rparr>) \<and>
   (\<exists>w'. nav_step (nav_world_init 0\<lparr>nav := Some (navbar_init\<lparr>isMobileMenuOpen := True\<rparr>)\<rparr>)
       (MobileLinkClick 3) = Some w' \<and>
     nav w' = Some (navbar_init\<lparr>isMobileMenuOpen := False\<rparr>) \<and>
     nav_scroll_target (MobileLinkClick 3) = Some ''faq'')"
proof -
  have n: "nav (nav_world_init 0\<lparr>nav := Some (navbar_init\<lparr>isMobileMenuOpen := True\<rparr>)\<rparr>) =
     Some (navbar_init\<lparr>isMobileMenuOpen := True\<rparr>)" by simp
  show ?thesis
    using n mobile_menu_handlers [OF n, of 3]
    by (simp add: navLinks_def anchor_target_def navbar_init_def)
qed

text \<open>
  C12. The bar is never drawn opaque at an offset of 50 or less: in every reachable
  configuration a mounted bar with \<open>isScrolled\<close> set sits on a window scrolled past
  the threshold.
\<close>

theorem reachable_opaque_only_past_threshold:
  "nav_reachable w \<Longrightarrow> nav w = Some st \<Longrightarrow> isScrolled st \<Longrightarrow> 50 < scrollY (win w)"
  by (drule nav_reachable_scroll_sound) (simp add: scroll_sound_def)

theorem reachable_opaque_only_past_threshold_witness:
  "nav_reachable (nav_world_init 0\<lparr>win := \<lparr>scrollY = 80, listeners = [0]\<rparr>,
     nav := Some (navbar_init\<lparr>isScrolled := True\<rparr>), subscription := Some 0, next_listener := 1\<rparr>) \<and>
   50 < scrollY (win (nav_world_init 0\<lparr>win := \<lparr>scrollY = 80, listeners = [0]\<rparr>,
     nav := Some (navbar_init\<lparr>isScrolled := True\<rparr>), subscription := Some 0, next_listener := 1\<rparr>))"
proof -
  have r: "nav_reachable (nav_world_init 0\<lparr>win := \<lparr>scrollY = 80, listeners = [0]\<rparr>,
     nav := Some (navbar_init\<lparr>isScrolled := True\<rparr>), subscription := Some 0, next_listener := 1\<rparr>)"
    by (rule nav_reachable.step [OF nav_reachable_mount [of 0], where e = "UserScroll 80"])
      (simp add: scroll_window_def dispatch_scroll_single handleScroll_def navbar_init_def)
  show ?thesis
    using r reachable_opaque_only_past_threshold [OF r, of "navbar_init\<lparr>isScrolled := True\<rparr>"]
    by (simp add: navbar_init_def)
qed

text \<open>
  C13. Mounting the bar on a page that is already scrolled (any initial offset
  \<open>y0\<close>, also past 50) leaves it transparent: \<open>isScrolled\<close> starts false and is
  only recomputed by the next scroll event.
\<close>

theorem mount_ignores_initial_offset:
  "\<exists>w. nav_step (nav_world_init y0) Mount = Some w \<and> scrollY (win w) = y0 \<and>
       nav w = Some \<lparr>isScrolled = False, isMobileMenuOpen = False\<rparr>"
  by (simp add: nav_world_init_def navbar_init_def)

text \<open>
  C20. No hysteresis: after any non-empty sequence of scroll events on a mounted bar,
  \<open>isScrolled\<close> is \<open>y > 50\<close> for the last offset \<open>y\<close> alone, the window sits at that
  offset, and the menu state is untouched.
\<close>

theorem scrolls_track_last_offset:
  assumes "nav_reachable w" and "nav w = Some st" and "ys \<noteq> []"
  shows "\<exists>w'. nav_run w (map UserScroll ys) = Some w' \<and> scrollY (win w') = last ys \<and>
           nav w' = Some (st\<lparr>isScrolled := 50 < last ys\<rparr>)"
proof -
  from assms(1) have "nav_inv w" by (rule nav_reachable_inv)
  from nav_run_scrolls [OF this assms(2,3)] show ?thesis .
qed

theorem scrolls_track_last_offset_witness:
  "\<exists>w'. nav_run (nav_world_init 0\<lparr>win := \<lparr>scrollY = 0, listeners = [0]\<rparr>,
       nav := Some navbar_init, subscription := Some 0, next_listener := 1\<rparr>)
       (map UserScroll [200, 120, 30]) = Some w' \<and> scrollY (win w') = 30 \<and>
     nav w' = Some (navbar_init\<lparr>isScrolled := False\<rparr>)"
  using scrolls_track_last_offset [OF nav_reachable_mount [of 0], of navbar_init "[200, 120, 30]"]
  by simp

text \<open>
  C21. Each flag of a mounted bar changes only through its own controls: the mobile
  menu flag only on the toggle, an overlay link or the overlay's "Shop Bundles"
  button; \<open>isScrolled\<close> only on a scroll event or the logo link, which scrolls
  to the top.
\<close>

theorem navbar_flags_change_only_by_their_events:
  assumes "nav_step w e = Some w'" and "nav w = Some st" and "nav w' = Some st'"
  shows "(isMobileMenuOpen st' \<noteq> isMobileMenuOpen st \<longrightarrow>
            e = ToggleMenu \<or> e = MobileShopClick \<or> (\<exists>i. e = MobileLinkClick i)) \<and>
         (isScrolled st' \<noteq> isScrolled st \<longrightarrow> (\<exists>y. e = UserScroll y) \<or> e = LogoClick)"
proof (cases e)
  case (UserScroll y)
  with assms(1) have "w' = scroll_window y w" by simp
  then have "map_option isMobileMenuOpen (nav w') = map_option isMobileMenuOpen (nav w)"
    by (simp add: scroll_window_frame)
  with assms(2,3) UserScroll show ?thesis by simp
next
  case LogoClick
  with assms(1,2) have "w' = scroll_window 0 w" by simp
  then have "map_option isMobileMenuOpen (nav w') = map_option isMobileMenuOpen (nav w)"
    by (simp add: scroll_window_frame)
  with assms(2,3) LogoClick show ?thesis by simp
qed (use assms in \<open>auto split: option.splits if_splits\<close>)

theorem navbar_flags_change_only_by_their_events_witness:
  "nav_step (nav_world_init 0\<lparr>nav := Some navbar_init\<rparr>) ToggleMenu =
     Some (nav_world_init 0\<lparr>nav := Some (navbar_init\<lparr>isMobileMenuOpen := True\<rparr>)\<rparr>) \<and>
   (ToggleMenu = ToggleMenu \<or> ToggleMenu = MobileShopClick \<or> (\<exists>i. ToggleMenu = MobileLinkClick i))"
proof -
  have s: "nav_step (nav_world_init 0\<lparr>nav := Some navbar_init\<rparr>) ToggleMenu =
     Some (nav_world_init 0\<lparr>nav := Some (navbar_init\<lparr>isMobileMenuOpen := True\<rparr>)\<rparr>)"
    by (simp add: navbar_init_def)
  show ?thesis
    using s navbar_flags_change_only_by_their_events [OF s, of navbar_init
        "navbar_init\<lparr>isMobileMenuOpen := True\<rparr>"]
    by simp
qed

end
