(* ===== verification/Button.thy ===== *)
theory Button
  imports Prelude
begin

text \<open>
  The \<open>Button\<close> primitive of \<open>src/components/Button.tsx\<close>: a \<open>motion.button\<close>
  that scales on hover and press, and whose class list is the template
  \<open>`${baseStyles} ${variants[variant]} ${fullWidth ? 'w-full' : ''} ${className}`\<close>
  over the props' defaults (\<open>variant = 'primary'\<close>, \<open>fullWidth = false\<close>,
  \<open>className = ''\<close>), with a hover overlay rendered for the primary variant only.
  The browser reads a class attribute as its space-separated non-empty tokens
  (\<open>css_tokens\<close> of \<open>Prelude\<close>, the environment's view). \<open>variants\<close> is an object literal
  indexed by the prop's string, modelled as an association list with JavaScript's
  \<open>undefined\<close> for a missing key. The lemma shows which tokens and whether the overlay a
  button gets from the props its caller passes, the defaults included.
\<close>

section \<open>Definitions\<close>

datatype variant = Primary | Secondary | Outline

text \<open>The props the page passes; \<open>None\<close> is an omitted prop.\<close>

record button_props =
  bp_variant :: "variant option"
  bp_fullWidth :: "bool option"
  bp_className :: "css_class option"

definition baseStyles :: css_class where
  "baseStyles = ''px-8 py-4 text-sm font-medium uppercase tracking-widest transition-all duration-300 relative overflow-hidden group''"

text \<open>
  The prop's type: the string literal union \<open>'primary' | 'secondary' | 'outline'\<close>,
  each constructor standing for its literal.
\<close>

fun variant_key :: "variant \<Rightarrow> string" where
  "variant_key Primary = ''primary''"
| "variant_key Secondary = ''secondary''"
| "variant_key Outline = ''outline''"

text \<open>The object literal \<open>variants\<close>, keyed by strings.\<close>

definition variants :: "(string \<times> css_class) list" where
  "variants =
     [(''primary'', ''bg-white text-black hover:bg-ice-100''),
      (''secondary'', ''bg-charcoal text-white hover:bg-neutral-800 border border-white/10''),
      (''outline'', ''bg-transparent border border-white text-white hover:bg-white hover:text-black'')]"

text \<open>
  Property access \<open>obj[k]\<close> interpolated into a template literal: a missing key reads
  \<open>undefined\<close>, which the template renders as the text \<open>"undefined"\<close>.
\<close>

definition js_index :: "(string \<times> string) list \<Rightarrow> string \<Rightarrow> string" where
  "js_index obj k = (case map_of obj k of None \<Rightarrow> ''undefined'' | Some v \<Rightarrow> v)"

text \<open>The destructuring defaults of the props.\<close>

definition button_variant :: "button_props \<Rightarrow> variant" where
  "button_variant p = (case bp_variant p of None \<Rightarrow> Primary | Some v \<Rightarrow> v)"

definition button_fullWidth :: "button_props \<Rightarrow> bool" where
  "button_fullWidth p = (case bp_fullWidth p of None \<Rightarrow> False | Some b \<Rightarrow> b)"

definition button_className :: "button_props \<Rightarrow> css_class" where
  "button_className p = (case bp_className p of None \<Rightarrow> [] | Some c \<Rightarrow> c)"

definition button_class :: "button_props \<Rightarrow> css_class" where
  "button_class p =
     baseStyles @ CHR '' '' # js_index variants (variant_key (button_variant p)) @ CHR '' '' #
     (if button_fullWidth p then ''w-full'' else []) @ CHR '' '' # button_className p"

text \<open>\<open>{variant === 'primary' && <div className="absolute inset-0 ..."/>}\<close>.\<close>

definition button_overlay :: "button_props \<Rightarrow> bool" where
  "button_overlay p \<longleftrightarrow> button_variant p = Primary"

text \<open>
  \<open>whileHover={{scale: 1.02}}\<close>, \<open>whileTap={{scale: 0.98}}\<close>: the scale the
  button animates to while hovered and while pressed; the press gesture takes priority
  over hover.
\<close>

definition button_scale :: "bool \<Rightarrow> bool \<Rightarrow> real" where
  "button_scale hovered pressed = (if pressed then 98 / 100 else if hovered then 102 / 100 else 1)"

section \<open>Properties\<close>

text \<open>
  C19. What a button renders from the props it is given: its class list, as the
  browser reads it, is the base styles, then the classes of the variant prop, the
  primary ones when the prop is omitted, then \<open>w-full\<close> only when \<open>fullWidth\<close> is
  passed as true, then the caller's \<open>className\<close> tokens, none when it is omitted; the
  template's empty slots leave no stray tokens. The hover overlay is rendered exactly
  when the variant prop is omitted or primary.
\<close>

theorem button_render:
  "css_tokens (button_class p) =
     css_tokens baseStyles @
     css_tokens (case bp_variant p of
                   None \<Rightarrow> ''bg-white text-black hover:bg-ice-100''
                 | Some v \<Rightarrow> js_index variants (variant_key v)) @
     (if bp_fullWidth p = Some True then [''w-full''] else []) @
     (case bp_className p of None \<Rightarrow> [] | Some c \<Rightarrow> css_tokens c) \<and>
   (button_overlay p \<longleftrightarrow> bp_variant p = None \<or> bp_variant p = Some Primary)"
proof -
  have v: "js_index variants (variant_key (button_variant p)) =
      (case bp_variant p of
         None \<Rightarrow> ''bg-white text-black hover:bg-ice-100''
       | Some v \<Rightarrow> js_index variants (variant_key v))"
    by (simp add: button_variant_def js_index_def variants_def split: option.splits)
  have w: "button_fullWidth p \<longleftrightarrow> bp_fullWidth p = Some True"
    by (simp add: button_fullWidth_def split: option.splits)
  have c: "css_tokens (button_className p) = (case bp_className p of None \<Rightarrow> [] | Some c \<Rightarrow> css_tokens c)"
    by (simp add: button_className_def split: option.splits)
  have "css_tokens (button_class p) =
     css_tokens baseStyles @ css_tokens (js_index variants (variant_key (button_variant p))) @
     (if button_fullWidth p then [''w-full''] else []) @ css_tokens (button_className p)"
    by (simp add: button_class_def css_tokens_append_space) (simp add: css_tokens_def)
  moreover have "button_overlay p \<longleftrightarrow> bp_variant p = None \<or> bp_variant p = Some Primary"
    by (simp add: button_overlay_def button_variant_def split: option.splits)
  ultimately show ?thesis by (simp only: v w c)
qed

end
