(* ===== verification/Page.thy ===== *)
theory Page
  imports Configurator Navbar Button
begin

text \<open>
  The static composition of the page in \<open>App\<close> (\<open>src/App.tsx\<close>, lines 159--651):
  the sections in their fixed order with the element ids they carry, the buttons of
  the hero, guarantee and footer sections with the element each scrolls into view
  (\<open>document.getElementById(id)?.scrollIntoView(...)\<close>, a no-op when the id is
  missing), the bundle cards rendered from \<open>bundles\<close>, and which images have a
  load-error handler. These definitions describe the page's static structure; the
  behavioural properties of the page are stated in the root theory and the component
  theories.
\<close>

section \<open>Definitions\<close>

subsection \<open>Sections and anchors\<close>

datatype page_section =
    HeroSection | ProblemSection | OutcomeSection | FeaturesSection | GallerySection
  | HowItWorksSection | BundlesSection | ReviewsSection | GuaranteeSection | FaqSection
  | SiteFooter

definition page_sections :: "page_section list" where
  "page_sections =
     [HeroSection, ProblemSection, OutcomeSection, FeaturesSection, GallerySection,
      HowItWorksSection, BundlesSection, ReviewsSection, GuaranteeSection, FaqSection,
      SiteFooter]"

fun section_id :: "page_section \<Rightarrow> dom_id option" where
  "section_id HowItWorksSection = Some ''how-it-works''"
| "section_id BundlesSection = Some ''bundles''"
| "section_id FaqSection = Some ''faq''"
| "section_id _ = None"

text \<open>\<open>document.getElementById\<close> over the page: the first section with the id.\<close>

definition getElementById :: "dom_id \<Rightarrow> page_section option" where
  "getElementById i = find (\<lambda>s. section_id s = Some i) page_sections"

text \<open>
  The page's own buttons: hero "Shop Bundles" and "How it works", the guarantee's
  "Shop Risk Free", the footer's "Shop Bundles"; each with its props and the id its
  \<open>onClick\<close> scrolls to.
\<close>

definition page_buttons :: "(button_props \<times> dom_id) list" where
  "page_buttons =
     [(\<lparr>bp_variant = None, bp_fullWidth = None, bp_className = None\<rparr>, ''bundles''),
      (\<lparr>bp_variant = Some Secondary, bp_fullWidth = None, bp_className = None\<rparr>, ''how-it-works''),
      (\<lparr>bp_variant = None, bp_fullWidth = None,
        bp_className = Some ''!bg-black !text-white hover:!bg-gray-800''\<rparr>, ''bundles''),
      (\<lparr>bp_variant = None, bp_fullWidth = None, bp_className = None\<rparr>, ''bundles'')]"

subsection \<open>Footer links\<close>

text \<open>The footer's three legal links, plain anchors to \<open>#\<close>, the top of the page.\<close>

definition footer_links :: "nav_link list" where
  "footer_links =
     [\<lparr>link_name = ''Privacy Policy'', link_href = ''#''\<rparr>,
      \<lparr>link_name = ''Terms of Service'', link_href = ''#''\<rparr>,
      \<lparr>link_name = ''Shipping & Returns'', link_href = ''#''\<rparr>]"

subsection \<open>Bundle cards\<close>

text \<open>JavaScript truthiness of the optional badge string (an empty string is falsy).\<close>

definition badge_truthy :: "Bundle \<Rightarrow> bool" where
  "badge_truthy b = (case badge b of None \<Rightarrow> False | Some s \<Rightarrow> s \<noteq> [])"

record bundle_card =
  card_cta :: button_props
  card_cta_label :: string
  card_badge :: "string option"
  card_highlighted :: bool
  card_includes :: "string list"
  card_price :: int

text \<open>
  One card of \<open>bundles.map(...)\<close>: highlighted border and badge label when the badge
  is truthy, the contents list, the price, and a full-width CTA \<open>Button\<close> that is
  primary for a badged bundle and outline otherwise (and has no \<open>onClick\<close>).
\<close>

definition render_bundle_card :: "Bundle \<Rightarrow> bundle_card" where
  "render_bundle_card b =
     \<lparr>card_cta = \<lparr>bp_variant = Some (if badge_truthy b then Primary else Outline),
                  bp_fullWidth = Some True, bp_className = None\<rparr>,
      card_cta_label = cta b,
      card_badge = (if badge_truthy b then badge b else None),
      card_highlighted = badge_truthy b,
      card_includes = bundle_includes b,
      card_price = price b\<rparr>"

definition bundle_cards :: "bundle_card list" where
  "bundle_cards = map render_bundle_card bundles"

subsection \<open>Images\<close>

datatype image_site = HeroImage | ParallaxImg | MarqueeImg | BundleImg

text \<open>
  The opacity an image is set to when it fails to load: only \<open>ParallaxImage\<close> has an
  \<open>onError\<close> handler (\<open>e.currentTarget.style.opacity = '0.5'\<close>).
\<close>

fun image_error_opacity :: "image_site \<Rightarrow> real option" where
  "image_error_opacity ParallaxImg = Some (1 / 2)"
| "image_error_opacity _ = None"

end
