(* ===== verification/Motion.thy ===== *)
theory Motion
  imports Prelude
begin

text \<open>
  The part of the framer-motion library that the page's primitives call, modelled as
  far as the page's claims depend on it: \<open>useTransform\<close> over a two-point input
  and output range (the library's \<open>transform\<close>, clamping by default), a linear
  two-keyframe animation repeated forever (\<open>repeat: Infinity\<close>, loop mode), and
  the in-view state of \<open>useInView\<close> / \<open>whileInView\<close> with the \<open>once\<close> option.
  None of this is code of the repository; the primitives in \<open>Primitives\<close> apply it to
  the ranges, keyframes and options written in \<open>src/App.tsx\<close>.
\<close>

section \<open>Definitions\<close>

subsection \<open>Clamped two-point transform\<close>

text \<open>Progress of \<open>v\<close> through \<open>[i0, i1]\<close>, after clamping \<open>v\<close> into the range.\<close>

definition progress2 :: "real \<Rightarrow> real \<Rightarrow> real \<Rightarrow> real" where
  "progress2 i0 i1 v = (min i1 (max i0 v) - i0) / (i1 - i0)"

definition transform2 :: "real \<Rightarrow> real \<Rightarrow> real \<Rightarrow> real \<Rightarrow> real \<Rightarrow> real" where
  "transform2 i0 i1 o0 o1 v = o0 + (o1 - o0) * progress2 i0 i1 v"

text \<open>
  \<open>useScroll({target, offset: ["start end", "end start"]})\<close>: the element's progress
  through the viewport, 0 when its top meets the viewport's bottom edge and 1 when its
  bottom meets the top edge, for a viewport of height \<open>vh\<close>, an element at document
  offset \<open>et\<close> of height \<open>h\<close>, and scroll offset \<open>s\<close> (unclamped; the transforms
  applied to it clamp).
\<close>

definition scroll_progress :: "px \<Rightarrow> px \<Rightarrow> px \<Rightarrow> px \<Rightarrow> real" where
  "scroll_progress vh et h s = (s + vh - et) / (vh + h)"

subsection \<open>Looping keyframes\<close>

text \<open>
  A two-keyframe animation with linear easing: the value at progress \<open>p\<close>, and the
  progress at time \<open>t\<close> of an animation of the given duration repeated in loop mode.
\<close>

definition keyframes2 :: "real \<Rightarrow> real \<Rightarrow> real \<Rightarrow> real" where
  "keyframes2 k0 k1 p = k0 + (k1 - k0) * p"

definition loop_progress :: "seconds \<Rightarrow> seconds \<Rightarrow> real" where
  "loop_progress duration t = frac (t / duration)"

text \<open>
  Three keyframes at the default times \<open>[0, 1/2, 1]\<close>: each half is a
  two-keyframe segment whose progress goes through the transition's easing curve
  \<open>ease\<close> (framer-motion applies one easing to every segment). The easing is a
  parameter: the lemmas hold for every curve that maps \<open>[0, 1]\<close> into itself.
\<close>

definition keyframes3 :: "(real \<Rightarrow> real) \<Rightarrow> real \<Rightarrow> real \<Rightarrow> real \<Rightarrow> real \<Rightarrow> real" where
  "keyframes3 ease k0 k1 k2 p =
     (if p < 1 / 2 then keyframes2 k0 k1 (ease (2 * p)) else keyframes2 k1 k2 (ease (2 * p - 1)))"

subsection \<open>In-view state\<close>

text \<open>
  Whether an element counts as in view after one visibility observation: with
  \<open>once\<close> set, an element that was in view stays so; otherwise it follows visibility.
  A run gives the state after each observation; an entry animation plays at each
  change from not in view to in view.
\<close>

definition view_latch :: "bool \<Rightarrow> bool \<Rightarrow> bool \<Rightarrow> bool" where
  "view_latch once shown visible = (if once \<and> shown then True else visible)"

fun latch_run :: "bool \<Rightarrow> bool \<Rightarrow> bool list \<Rightarrow> bool list" where
  "latch_run once shown [] = []"
| "latch_run once shown (v # vs) =
     (let s = view_latch once shown v in s # latch_run once s vs)"

fun rising_edges :: "bool \<Rightarrow> bool list \<Rightarrow> nat" where
  "rising_edges prev [] = 0"
| "rising_edges prev (s # ss) = (if \<not> prev \<and> s then 1 else 0) + rising_edges s ss"

section \<open>Lemmas\<close>

subsection \<open>Transform\<close>

lemma progress2_bounds: "i0 < i1 \<Longrightarrow> 0 \<le> progress2 i0 i1 v \<and> progress2 i0 i1 v \<le> 1"
  by (simp add: progress2_def divide_le_eq_1)

lemma progress2_mono: "i0 < i1 \<Longrightarrow> v \<le> w \<Longrightarrow> progress2 i0 i1 v \<le> progress2 i0 i1 w"
  by (simp add: progress2_def divide_right_mono)

lemma progress2_lipschitz:
  assumes lt: "i0 < i1"
  shows "\<bar>progress2 i0 i1 v - progress2 i0 i1 w\<bar> \<le> \<bar>v - w\<bar> / (i1 - i0)"
proof -
  have "\<bar>min i1 (max i0 v) - min i1 (max i0 w)\<bar> \<le> \<bar>v - w\<bar>" by linarith
  then have "\<bar>min i1 (max i0 v) - min i1 (max i0 w)\<bar> / (i1 - i0) \<le> \<bar>v - w\<bar> / (i1 - i0)"
    using lt by (simp add: divide_right_mono)
  moreover have "progress2 i0 i1 v - progress2 i0 i1 w =
      (min i1 (max i0 v) - min i1 (max i0 w)) / (i1 - i0)"
    by (simp add: progress2_def diff_divide_distrib)
  ultimately show ?thesis using lt by simp
qed

lemma progress2_inside:
  "i0 \<le> v \<Longrightarrow> v \<le> i1 \<Longrightarrow> i0 < i1 \<Longrightarrow> progress2 i0 i1 v = (v - i0) / (i1 - i0)"
  by (simp add: progress2_def)

lemma progress2_low: "v \<le> i0 \<Longrightarrow> i0 < i1 \<Longrightarrow> progress2 i0 i1 v = 0"
  by (simp add: progress2_def)

lemma progress2_high: "i1 \<le> v \<Longrightarrow> i0 < i1 \<Longrightarrow> progress2 i0 i1 v = 1"
  by (simp add: progress2_def)

subsection \<open>Loops\<close>

lemma loop_progress_bounds: "0 \<le> loop_progress d t \<and> loop_progress d t < 1"
  by (simp add: loop_progress_def frac_lt_1)

lemma loop_progress_period: "0 < d \<Longrightarrow> loop_progress d (t + d) = loop_progress d t"
proof -
  assume "0 < d"
  then have "(t + d) / d = t / d + 1" by (simp add: add_divide_distrib)
  then show ?thesis by (simp add: loop_progress_def frac_1_eq)
qed

lemma keyframes2_between:
  "0 \<le> e \<Longrightarrow> e \<le> 1 \<Longrightarrow> min a b \<le> keyframes2 a b e \<and> keyframes2 a b e \<le> max a b"
proof -
  assume e: "0 \<le> e" "e \<le> 1"
  have "keyframes2 a b e = (1 - e) * a + e * b" by (simp add: keyframes2_def algebra_simps)
  moreover have "(1 - e) * min a b + e * min a b \<le> (1 - e) * a + e * b"
    using e by (intro add_mono mult_left_mono) auto
  moreover have "(1 - e) * a + e * b \<le> (1 - e) * max a b + e * max a b"
    using e by (intro add_mono mult_left_mono) auto
  ultimately show ?thesis by (simp add: algebra_simps)
qed

lemma keyframes3_bounds:
  assumes ease: "\<forall>x. 0 \<le> x \<and> x \<le> 1 \<longrightarrow> 0 \<le> ease x \<and> ease x \<le> 1"
    and p: "0 \<le> p" "p \<le> 1"
    and k: "lo \<le> k0" "k0 \<le> hi" "lo \<le> k1" "k1 \<le> hi" "lo \<le> k2" "k2 \<le> hi"
  shows "lo \<le> keyframes3 ease k0 k1 k2 p \<and> keyframes3 ease k0 k1 k2 p \<le> hi"
proof (cases "p < 1 / 2")
  case True
  with p ease have "0 \<le> ease (2 * p) \<and> ease (2 * p) \<le> 1" by simp
  then have "min k0 k1 \<le> keyframes2 k0 k1 (ease (2 * p)) \<and> keyframes2 k0 k1 (ease (2 * p)) \<le> max k0 k1"
    by (intro keyframes2_between) simp_all
  with True k show ?thesis by (auto simp: keyframes3_def min_def max_def split: if_splits)
next
  case False
  with p ease have "0 \<le> ease (2 * p - 1) \<and> ease (2 * p - 1) \<le> 1" by simp
  then have "min k1 k2 \<le> keyframes2 k1 k2 (ease (2 * p - 1)) \<and> keyframes2 k1 k2 (ease (2 * p - 1)) \<le> max k1 k2"
    by (intro keyframes2_between) simp_all
  with False k show ?thesis by (auto simp: keyframes3_def min_def max_def split: if_splits)
qed

lemma keyframes3_ends:
  "ease 0 = 0 \<Longrightarrow> ease 1 = 1 \<Longrightarrow>
   keyframes3 ease k0 k1 k2 0 = k0 \<and> keyframes3 ease k0 k1 k2 1 = k2 \<and>
   keyframes3 ease k0 k1 k2 (1 / 2) = k1"
  by (simp add: keyframes3_def keyframes2_def)

subsection \<open>In-view latch\<close>

lemma latch_run_shown: "latch_run True True vs = replicate (length vs) True"
  by (induction vs) (simp_all add: view_latch_def)

lemma sorted_latch_run_once: "sorted (shown # latch_run True shown vs)"
proof (induction vs arbitrary: shown)
  case Nil
  then show ?case by simp
next
  case (Cons v vs)
  let ?s = "view_latch True shown v"
  have eq: "latch_run True shown (v # vs) = ?s # latch_run True ?s vs" by (simp add: Let_def)
  have "sorted (?s # latch_run True ?s vs)" by (rule Cons.IH)
  moreover have "shown \<le> ?s" by (simp add: view_latch_def)
  ultimately show ?case by (simp only: eq sorted2)
qed

lemma rising_edges_sorted: "sorted (p # ss) \<Longrightarrow> rising_edges p ss \<le> (if p then 0 else 1)"
proof (induction ss arbitrary: p)
  case Nil
  then show ?case by simp
next
  case (Cons s ss)
  from Cons.prems have le: "p \<le> s" and srt: "sorted (s # ss)" by (simp_all only: sorted2)
  from srt have "rising_edges s ss \<le> (if s then 0 else 1)" by (rule Cons.IH)
  with le show ?case by (cases p; cases s) simp_all
qed

lemma latch_run_once_rising_le1: "rising_edges False (latch_run True False vs) \<le> 1"
  using rising_edges_sorted [OF sorted_latch_run_once [of False vs]] by simp

lemma latch_run_nth:
  "k < length vs \<Longrightarrow> latch_run True shown vs ! k = (shown \<or> (\<exists>j\<le>k. vs ! j))"
proof (induction vs arbitrary: shown k)
  case Nil
  then show ?case by simp
next
  case (Cons v vs)
  show ?case
  proof (cases k)
    case 0
    then show ?thesis by (simp add: view_latch_def)
  next
    case (Suc k')
    with Cons.prems have "k' < length vs" by simp
    then have "latch_run True (view_latch True shown v) vs ! k' =
        (view_latch True shown v \<or> (\<exists>j\<le>k'. vs ! j))" by (rule Cons.IH)
    moreover have "(\<exists>j\<le>Suc k'. (v # vs) ! j) = (v \<or> (\<exists>j\<le>k'. vs ! j))"
    proof
      assume "\<exists>j\<le>Suc k'. (v # vs) ! j"
      then obtain j where "j \<le> Suc k'" and "(v # vs) ! j" by blast
      then show "v \<or> (\<exists>j\<le>k'. vs ! j)" by (cases j) auto
    next
      assume "v \<or> (\<exists>j\<le>k'. vs ! j)"
      then show "\<exists>j\<le>Suc k'. (v # vs) ! j"
      proof
        assume v
        then show ?thesis by (intro exI [of _ 0]) simp
      next
        assume "\<exists>j\<le>k'. vs ! j"
        then obtain j where "j \<le> k'" and "vs ! j" by blast
        then show ?thesis by (intro exI [of _ "Suc j"]) simp
      qed
    qed
    ultimately show ?thesis using Suc by (auto simp: view_latch_def Let_def)
  qed
qed

lemma scroll_progress_mono:
  "0 < vh + h \<Longrightarrow> s \<le> s' \<Longrightarrow> scroll_progress vh et h s \<le> scroll_progress vh et h s'"
  by (simp add: scroll_progress_def divide_right_mono)

end
