(* ===== verification/Primitives.thy ===== *)
theory Primitives
  imports Motion
begin

text \<open>
  The animation primitives defined at the top of \<open>src/App.tsx\<close> (lines 68--146) and
  the hero's scroll transforms (lines 151--153), over the framer-motion model of
  \<open>Motion\<close>: \<open>FadeInUp\<close> (fade and rise on first view), \<open>RevealText\<close> (split into
  words, staggered rise on first view), \<open>ParallaxImage\<close> (scroll progress to vertical
  offset), \<open>Marquee\<close> (duplicated strip translated in a 40-second loop), and
  the hero's two looping animations (floating badge and scroll cue, lines 249--266).
  The lemmas
  show that the stagger is strictly increasing, that the reveal plays at most once
  and shows exactly what has been seen, that the transforms stay in their ranges and
  move continuously and monotonically, and that the marquee and the hero loops repeat
  without a jump.
\<close>

section \<open>Definitions\<close>

subsection \<open>FadeInUp\<close>

text \<open>\<open>initial={{opacity: 0, y: 40}}\<close>, \<open>whileInView={{opacity: 1, y: 0}}\<close>: (opacity, y).\<close>

definition fade_in_up_style :: "bool \<Rightarrow> real \<times> px" where
  "fade_in_up_style shown = (if shown then (1, 0) else (0, 40))"

text \<open>\<open>viewport={{once: true, ...}}\<close>: the in-view state over visibility observations.\<close>

definition fade_in_up_run :: "bool list \<Rightarrow> bool list" where
  "fade_in_up_run vs = latch_run True False vs"

subsection \<open>RevealText\<close>

text \<open>\<open>text.split(" ")\<close>; word \<open>i\<close> rises after \<open>i * 0.05\<close> seconds.\<close>

definition reveal_words :: "string \<Rightarrow> string list" where
  "reveal_words text = js_split CHR '' '' text"

definition reveal_delay :: "nat \<Rightarrow> seconds" where
  "reveal_delay i = real i * (5 / 100)"

definition reveal_schedule :: "string \<Rightarrow> (string \<times> seconds) list" where
  "reveal_schedule text = map (\<lambda>(i, w). (w, reveal_delay i)) (enumerate 0 (reveal_words text))"

text \<open>\<open>useInView(ref, {once: true, ...})\<close>.\<close>

definition reveal_in_view_run :: "bool list \<Rightarrow> bool list" where
  "reveal_in_view_run vs = latch_run True False vs"

text \<open>A word's vertical offset in percent: \<open>initial={{y: "110%"}}\<close>, \<open>animate={isInView ? {y: 0} : {}}\<close>.\<close>

definition reveal_word_y :: "bool \<Rightarrow> percent" where
  "reveal_word_y inView = (if inView then 0 else 110)"

subsection \<open>ParallaxImage\<close>

text \<open>
  \<open>useTransform(scrollYProgress, [0, 1], [-offset, offset])\<close>, with the default
  \<open>offset = 50\<close>; \<open>scrollYProgress\<close> is the element's progress through the viewport.
\<close>

definition parallax_y :: "px \<Rightarrow> real \<Rightarrow> px" where
  "parallax_y offset p = transform2 0 1 (- offset) offset p"

definition parallax_default_offset :: px where
  "parallax_default_offset = 50"

subsection \<open>Marquee\<close>

text \<open>\<open>[...images, ...images]\<close>: the strip shows the sequence twice.\<close>

definition marquee_items :: "'a list \<Rightarrow> 'a list" where
  "marquee_items images = images @ images"

text \<open>\<open>x: reverse ? ["-50%", "0%"] : ["0%", "-50%"]\<close>, 40 seconds, linear, repeated.\<close>

definition marquee_keyframes :: "bool \<Rightarrow> percent \<times> percent" where
  "marquee_keyframes reverse = (if reverse then (-50, 0) else (0, -50))"

definition marquee_duration :: seconds where
  "marquee_duration = 40"

definition marquee_x :: "bool \<Rightarrow> seconds \<Rightarrow> percent" where
  "marquee_x reverse t =
     (case marquee_keyframes reverse of
        (k0, k1) \<Rightarrow> keyframes2 k0 k1 (loop_progress marquee_duration t))"

subsection \<open>Hero transforms\<close>

text \<open>\<open>useTransform(scrollY, [0, 500], [0, 200])\<close> and \<open>useTransform(scrollY, [0, 300], [1, 0])\<close>.\<close>

definition heroY :: "px \<Rightarrow> px" where
  "heroY s = transform2 0 500 0 200 s"

definition heroOpacity :: "px \<Rightarrow> real" where
  "heroOpacity s = transform2 0 300 1 0 s"

subsection \<open>Hero loops\<close>

text \<open>
  The floating badge (\<open>animate={{y: [-10, 10, -10]}}\<close>, 5 s, \<open>easeInOut\<close>) and the
  scroll cue (\<open>animate={{y: [0, 10, 0]}}\<close>, 2 s), both \<open>repeat: Infinity\<close>; the
  easing curve is left as a parameter.
\<close>

definition badge_keyframes :: "(real \<Rightarrow> real) \<Rightarrow> real \<Rightarrow> px" where
  "badge_keyframes ease p = keyframes3 ease (-10) 10 (-10) p"

definition floating_badge_y :: "(real \<Rightarrow> real) \<Rightarrow> seconds \<Rightarrow> px" where
  "floating_badge_y ease t = badge_keyframes ease (loop_progress 5 t)"

definition cue_keyframes :: "(real \<Rightarrow> real) \<Rightarrow> real \<Rightarrow> px" where
  "cue_keyframes ease p = keyframes3 ease 0 10 0 p"

definition scroll_cue_y :: "(real \<Rightarrow> real) \<Rightarrow> seconds \<Rightarrow> px" where
  "scroll_cue_y ease t = cue_keyframes ease (loop_progress 2 t)"

section \<open>Lemmas\<close>

lemma map_enumerate_schedule:
  "map (\<lambda>(i, w). (w, d i)) (enumerate n ws) = zip ws (map d [n..<n + length ws])"
proof (induction ws arbitrary: n)
  case Nil
  then show ?case by simp
next
  case (Cons w ws)
  then show ?case by (simp add: upt_conv_Cons del: upt_Suc)
qed

lemma parallax_zero_iff_half: "0 < offset \<Longrightarrow> parallax_y offset p = 0 \<longleftrightarrow> p = 1 / 2"
  by (auto simp: parallax_y_def transform2_def progress2_def min_def max_def split: if_splits)

section \<open>Properties\<close>

text \<open>
  C14. RevealText animates the words in order with a stagger: word \<open>i\<close> of the
  split gets delay \<open>i * 0.05\<close> s, and the delays strictly increase.
\<close>

theorem reveal_schedule_stagger:
  "map fst (reveal_schedule text) = reveal_words text \<and>
   map snd (reveal_schedule text) = map reveal_delay [0..<length (reveal_words text)] \<and>
   sorted_wrt (<) (map snd (reveal_schedule text))"
proof -
  have z: "reveal_schedule text = zip (reveal_words text) (map reveal_delay [0..<length (reveal_words text)])"
    using map_enumerate_schedule [of reveal_delay 0 "reveal_words text"]
    by (simp add: reveal_schedule_def)
  have "sorted_wrt (<) (map reveal_delay [0..<n])" for n
  proof -
    have "sorted_wrt (<) [0..<n]" by (rule sorted_wrt_upt)
    then have "sorted_wrt (\<lambda>x y. reveal_delay x < reveal_delay y) [0..<n]"
      by (rule sorted_wrt_mono_rel [rotated]) (simp add: reveal_delay_def)
    then show ?thesis by (simp add: sorted_wrt_map)
  qed
  then show ?thesis by (simp add: z)
qed

text \<open>
  C15. With \<open>once: true\<close>, the in-view state of FadeInUp and RevealText never goes
  back to hidden, whatever the element's visibility does afterwards, so the entry
  animation plays at most once.
\<close>

theorem reveal_plays_once:
  "sorted (False # fade_in_up_run vs) \<and> rising_edges False (fade_in_up_run vs) \<le> 1 \<and>
   sorted (False # reveal_in_view_run vs) \<and> rising_edges False (reveal_in_view_run vs) \<le> 1"
  using sorted_latch_run_once [of False vs] rising_edges_sorted [of False "latch_run True False vs"]
  by (simp add: fade_in_up_run_def reveal_in_view_run_def)

text \<open>
  C16. The hero's scroll transforms stay in their output ranges for every scroll
  offset (the image moves 0 to 200 px, the copy's opacity stays in [0, 1]), take their
  end values at the ends of the input ranges, and are monotone: scrolling further down
  never moves the hero image back up and never makes the hero copy more opaque.
\<close>

theorem hero_transforms_range_monotone:
  "0 \<le> heroY s \<and> heroY s \<le> 200 \<and> 0 \<le> heroOpacity s \<and> heroOpacity s \<le> 1 \<and>
   heroY 0 = 0 \<and> heroY 500 = 200 \<and> heroOpacity 0 = 1 \<and> heroOpacity 300 = 0 \<and>
   (s \<le> s' \<longrightarrow> heroY s \<le> heroY s' \<and> heroOpacity s' \<le> heroOpacity s)"
proof -
  have "0 \<le> heroY s \<and> heroY s \<le> 200 \<and> 0 \<le> heroOpacity s \<and> heroOpacity s \<le> 1 \<and>
      heroY 0 = 0 \<and> heroY 500 = 200 \<and> heroOpacity 0 = 1 \<and> heroOpacity 300 = 0"
    using progress2_bounds [of 0 500 s] progress2_bounds [of 0 300 s]
    by (simp add: heroY_def heroOpacity_def transform2_def progress2_def)
  moreover have "s \<le> s' \<longrightarrow> heroY s \<le> heroY s' \<and> heroOpacity s' \<le> heroOpacity s"
    using progress2_mono [of 0 500 s s'] progress2_mono [of 0 300 s s']
    by (simp add: heroY_def heroOpacity_def transform2_def)
  ultimately show ?thesis by blast
qed

theorem hero_transforms_range_monotone_witness:
  "heroY 100 \<le> 200 \<and> heroY 100 \<le> heroY 200 \<and> heroOpacity 200 \<le> heroOpacity 100"
  using hero_transforms_range_monotone [of 100 200] by simp

text \<open>
  C17. ParallaxImage maps scroll progress into \<open>[-offset, offset]\<close>, from
  \<open>-offset\<close> at entry to \<open>offset\<close> at exit, continuously (the offset changes by at
  most \<open>2 * offset\<close> times the change in progress). Over the page's scroll position
  the image moves monotonically, and it sits at its resting offset 0 exactly when the
  element's centre is at the viewport's centre.
\<close>

theorem parallax_bounded_continuous:
  assumes o: "0 < offset" and "0 < vh" and "0 < h"
  shows "- offset \<le> parallax_y offset p \<and> parallax_y offset p \<le> offset \<and>
         parallax_y offset 0 = - offset \<and> parallax_y offset 1 = offset \<and>
         \<bar>parallax_y offset p - parallax_y offset q\<bar> \<le> 2 * offset * \<bar>p - q\<bar> \<and>
         (parallax_y offset (scroll_progress vh et h s) = 0 \<longleftrightarrow> s + vh / 2 = et + h / 2) \<and>
         (s \<le> s' \<longrightarrow> parallax_y offset (scroll_progress vh et h s) \<le>
                        parallax_y offset (scroll_progress vh et h s'))"
proof -
  have b: "0 \<le> progress2 0 1 p \<and> progress2 0 1 p \<le> 1" by (rule progress2_bounds) simp
  have l: "\<bar>progress2 0 1 p - progress2 0 1 q\<bar> \<le> \<bar>p - q\<bar>"
    using progress2_lipschitz [of 0 1 p q] by simp
  have "\<bar>parallax_y offset p - parallax_y offset q\<bar> =
      2 * offset * \<bar>progress2 0 1 p - progress2 0 1 q\<bar>"
    using o by (simp add: parallax_y_def transform2_def abs_mult right_diff_distrib [symmetric])
  also have "\<dots> \<le> 2 * offset * \<bar>p - q\<bar>" using o l by (simp add: mult_left_mono)
  finally have lip: "\<bar>parallax_y offset p - parallax_y offset q\<bar> \<le> 2 * offset * \<bar>p - q\<bar>" .
  have "offset * progress2 0 1 p \<le> offset" using o b by (simp add: mult_left_le)
  moreover have "0 \<le> offset * progress2 0 1 p" using o b by simp
  ultimately have range: "- offset \<le> parallax_y offset p \<and> parallax_y offset p \<le> offset \<and>
      parallax_y offset 0 = - offset \<and> parallax_y offset 1 = offset"
    by (simp add: parallax_y_def transform2_def progress2_def)
  have zero: "parallax_y offset (scroll_progress vh et h s) = 0 \<longleftrightarrow> s + vh / 2 = et + h / 2"
    using assms by (simp add: parallax_zero_iff_half scroll_progress_def field_simps) arith
  have "s \<le> s' \<Longrightarrow> parallax_y offset (scroll_progress vh et h s) \<le>
                        parallax_y offset (scroll_progress vh et h s')"
  proof -
    assume "s \<le> s'"
    with assms have "scroll_progress vh et h s \<le> scroll_progress vh et h s'"
      by (simp add: scroll_progress_mono)
    then have "progress2 0 1 (scroll_progress vh et h s) \<le> progress2 0 1 (scroll_progress vh et h s')"
      by (simp add: progress2_mono)
    with o show ?thesis by (simp add: parallax_y_def transform2_def mult_left_mono)
  qed
  with range lip zero show ?thesis by blast
qed

theorem parallax_bounded_continuous_witness:
  "- 80 \<le> parallax_y 80 (1/4) \<and> parallax_y 80 (1/4) \<le> 80 \<and>
   \<bar>parallax_y 80 (1/4) - parallax_y 80 (1/2)\<bar> \<le> 2 * 80 * \<bar>1/4 - 1/2\<bar> \<and>
   parallax_y 80 (scroll_progress 800 1000 600 900) = 0"
  using parallax_bounded_continuous [of 80 800 600 "1/4" "1/2" 1000 900 900] by simp

text \<open>
  C18. The marquee loops seamlessly: its translation repeats every 40 s, stays within
  one copy's width (\<open>(-50%, 0%]\<close> forward), starts at its first keyframe, and the
  reverse direction mirrors the forward one; the strip holds the images twice, so
  shifting it by one copy (the \<open>-50%\<close> keyframe) shows the same sequence as no shift.
\<close>

theorem marquee_loop:
  "marquee_x r (t + 40) = marquee_x r t \<and>
   - 50 < marquee_x False t \<and> marquee_x False t \<le> 0 \<and>
   marquee_x True t = - 50 - marquee_x False t \<and>
   marquee_x False 0 = 0 \<and> marquee_x True 0 = - 50 \<and>
   length (marquee_items images) = 2 * length images \<and>
   take (length images) (marquee_items images) = images \<and>
   drop (length images) (marquee_items images) = images \<and>
   rotate (length images) (marquee_items images) = marquee_items images"
proof -
  have "marquee_x r (t + 40) = marquee_x r t \<and>
      - 50 < marquee_x False t \<and> marquee_x False t \<le> 0 \<and>
      marquee_x True t = - 50 - marquee_x False t \<and>
      marquee_x False 0 = 0 \<and> marquee_x True 0 = - 50"
    using loop_progress_bounds [of 40 t] loop_progress_period [of 40 t]
    by (simp add: marquee_x_def marquee_keyframes_def marquee_duration_def keyframes2_def
        loop_progress_def)
  moreover have "length (marquee_items images) = 2 * length images \<and>
      take (length images) (marquee_items images) = images \<and>
      drop (length images) (marquee_items images) = images \<and>
      rotate (length images) (marquee_items images) = marquee_items images"
    by (simp add: marquee_items_def rotate_append)
  ultimately show ?thesis by blast
qed

text \<open>
  C22. The reveal state with \<open>once: true\<close> is exactly "seen so far": after the
  \<open>k\<close>-th visibility observation, FadeInUp and RevealText show their content iff the
  element was visible at some observation up to \<open>k\<close>.
\<close>

theorem reveal_shown_iff_seen:
  "k < length vs \<Longrightarrow>
   fade_in_up_run vs ! k = (\<exists>j\<le>k. vs ! j) \<and> reveal_in_view_run vs ! k = (\<exists>j\<le>k. vs ! j)"
  by (simp add: fade_in_up_run_def reveal_in_view_run_def latch_run_nth)

theorem reveal_shown_iff_seen_witness:
  "(2::nat) < length [False, True, False] \<and> fade_in_up_run [False, True, False] ! 2 \<and>
   reveal_in_view_run [False, True, False] ! 2"
proof -
  have k: "(2::nat) < length [False, True, False]" by simp
  have "\<exists>j\<le>(2::nat). [False, True, False] ! j" by (intro exI [of _ 1]) simp
  with k reveal_shown_iff_seen [OF k] show ?thesis by simp
qed

text \<open>
  C24. The hero's two looping animations, for every easing curve that maps \<open>[0, 1]\<close>
  into itself and fixes 0 and 1: the floating badge stays within 10 px of its place and
  repeats every 5 s, the scroll cue stays between 0 and 10 px and repeats every 2 s,
  and each loop's keyframes end at the value they start from, so the repetition has
  no jump.
\<close>

theorem hero_loops_bounded_periodic:
  assumes "\<forall>x. 0 \<le> x \<and> x \<le> 1 \<longrightarrow> 0 \<le> ease x \<and> ease x \<le> 1"
    and "ease 0 = 0" and "ease 1 = 1"
  shows "-10 \<le> floating_badge_y ease t \<and> floating_badge_y ease t \<le> 10 \<and>
         floating_badge_y ease (t + 5) = floating_badge_y ease t \<and>
         0 \<le> scroll_cue_y ease t \<and> scroll_cue_y ease t \<le> 10 \<and>
         scroll_cue_y ease (t + 2) = scroll_cue_y ease t \<and>
         badge_keyframes ease 1 = badge_keyframes ease 0 \<and>
         cue_keyframes ease 1 = cue_keyframes ease 0"
proof -
  have lp: "\<And>d. 0 \<le> loop_progress d t \<and> loop_progress d t \<le> 1"
    using loop_progress_bounds by (simp add: less_imp_le)
  have "-10 \<le> floating_badge_y ease t \<and> floating_badge_y ease t \<le> 10"
    unfolding floating_badge_y_def badge_keyframes_def using lp [of 5]
    by (intro keyframes3_bounds [OF assms(1)]) simp_all
  moreover have "0 \<le> scroll_cue_y ease t \<and> scroll_cue_y ease t \<le> 10"
    unfolding scroll_cue_y_def cue_keyframes_def using lp [of 2]
    by (intro keyframes3_bounds [OF assms(1)]) simp_all
  moreover have "floating_badge_y ease (t + 5) = floating_badge_y ease t"
    by (simp add: floating_badge_y_def loop_progress_period)
  moreover have "scroll_cue_y ease (t + 2) = scroll_cue_y ease t"
    by (simp add: scroll_cue_y_def loop_progress_period)
  ultimately show ?thesis
    using keyframes3_ends [OF assms(2,3)] by (simp add: badge_keyframes_def cue_keyframes_def)
qed

theorem hero_loops_bounded_periodic_witness:
  "floating_badge_y (\<lambda>x. x) 1 = -2 \<and> -10 \<le> floating_badge_y (\<lambda>x. x) 1 \<and>
   floating_badge_y (\<lambda>x. x) 6 = floating_badge_y (\<lambda>x. x) 1 \<and>
   scroll_cue_y (\<lambda>x. x) 1 = 10 \<and> scroll_cue_y (\<lambda>x. x) 3 = scroll_cue_y (\<lambda>x. x) 1"
proof -
  have v1: "floating_badge_y (\<lambda>x. x) 1 = -2"
    by (simp add: floating_badge_y_def badge_keyframes_def keyframes3_def keyframes2_def
        loop_progress_def frac_eq)
  have v2: "scroll_cue_y (\<lambda>x. x) 1 = 10"
    by (simp add: scroll_cue_y_def cue_keyframes_def keyframes3_def keyframes2_def
        loop_progress_def)
  have h: "\<forall>x::real. 0 \<le> x \<and> x \<le> 1 \<longrightarrow> 0 \<le> x \<and> x \<le> 1" by simp
  show ?thesis
    using hero_loops_bounded_periodic [of "\<lambda>x. x" 1, OF h] v1 v2 by simp
qed

end
