(* ===== verification/Sections.thy ===== *)
theory Sections
  imports Page Primitives
begin

text \<open>
  The content sections of \<open>App\<close> between the hero and the FAQ (\<open>src/App.tsx\<close>,
  lines 274--500): their literal content arrays (features, the three steps, the routine
  tips) and every entry animation that plays when a block scrolls into view, each as
  its initial and resting values of (opacity, y, scale), its delay and its \<open>once\<close>
  option. Blocks of one \<open>.map\<close> form a staggered group. The lemmas show that every
  entry animation starts hidden, comes to rest fully visible, plays at most once
  whatever the visibility does, and that each group staggers in reading order. The
  hero's elements animate once on mount instead (lines 170--237); their entrance is
  modelled with its durations, under the scroll fade of the copy block.
\<close>

section \<open>Definitions\<close>

record entry_anim =
  ea_from :: "real \<times> px \<times> real"
  ea_to :: "real \<times> px \<times> real"
  ea_delay :: seconds
  ea_once :: bool

text \<open>A \<open>FadeInUp\<close> with the given \<open>delay\<close> prop (default 0).\<close>

definition fade_in_up_anim :: "seconds \<Rightarrow> entry_anim" where
  "fade_in_up_anim d =
     \<lparr>ea_from = (fst (fade_in_up_style False), snd (fade_in_up_style False), 1),
      ea_to = (fst (fade_in_up_style True), snd (fade_in_up_style True), 1),
      ea_delay = d, ea_once = True\<rparr>"

text \<open>"Heat adds up.": three \<open>FadeInUp\<close> blocks, the first without a delay.\<close>

definition problem_anims :: "entry_anim list" where
  "problem_anims = map fade_in_up_anim [0, 2 / 10, 4 / 10]"

text \<open>The outcome section's two benefit blocks.\<close>

definition outcome_anims :: "entry_anim list" where
  "outcome_anims = map fade_in_up_anim [2 / 10, 4 / 10]"

definition feature_cards :: "(string \<times> string) list" where
  "feature_cards =
     [(''Discreet Pocket'', ''Holds the pad securely without bulky outlines.''),
      (''Controlled Cooling'', ''Feel the difference for at least 20 minutes.''),
      (''Bamboo Lyocell'', ''Soft, breathable, and smooth on skin.'')]"

definition feature_card_anim :: "nat \<Rightarrow> entry_anim" where
  "feature_card_anim idx =
     \<lparr>ea_from = (0, 30, 1), ea_to = (1, 0, 1), ea_delay = real idx * (1 / 10), ea_once = True\<rparr>"

definition how_steps :: "(string \<times> string \<times> string) list" where
  "how_steps =
     [(''01'', ''Chill'', ''Place the cooling pad in your freezer for 60 minutes.''),
      (''02'', ''Insert'', ''Slide it into the front pocket. The pocket creates a comfortable barrier so it cools without harsh shock.''),
      (''03'', ''Go'', ''Enjoy a cooling session for 20 minutes or more. Swap to a fresh pad when the first one warms up.'')]"

definition how_step_anim :: "nat \<Rightarrow> entry_anim" where
  "how_step_anim idx =
     \<lparr>ea_from = (0, 30, 1), ea_to = (1, 0, 1), ea_delay = real idx * (2 / 10), ea_once = True\<rparr>"

text \<open>The "Sauna Routine" card: a fade and scale-up with no transition delay.\<close>

definition routine_card_anim :: entry_anim where
  "routine_card_anim =
     \<lparr>ea_from = (0, 0, 95 / 100), ea_to = (1, 0, 1), ea_delay = 0, ea_once = True\<rparr>"

definition routine_tips :: "string list" where
  "routine_tips =
     [''Pre chill your pads before you leave'',
      ''Use one pad after the hot room, or between rounds'',
      ''Swap pads every 20 minutes for longer sessions'']"

definition bundle_card_anim :: "nat \<Rightarrow> entry_anim" where
  "bundle_card_anim idx =
     \<lparr>ea_from = (0, 50, 1), ea_to = (1, 0, 1), ea_delay = real idx * (1 / 10), ea_once = True\<rparr>"

text \<open>The page's entry animations, grouped by the block they stagger within.\<close>

definition entry_groups :: "(page_section \<times> entry_anim list) list" where
  "entry_groups =
     [(ProblemSection, problem_anims),
      (OutcomeSection, outcome_anims),
      (FeaturesSection, map feature_card_anim [0..<length feature_cards]),
      (HowItWorksSection, map how_step_anim [0..<length how_steps]),
      (HowItWorksSection, [routine_card_anim]),
      (BundlesSection, map bundle_card_anim [0..<length bundles])]"

text \<open>The in-view state of an entry animation over a sequence of visibility observations.\<close>

definition entry_run :: "entry_anim \<Rightarrow> bool list \<Rightarrow> bool list" where
  "entry_run a vs = latch_run (ea_once a) False vs"

subsection \<open>The hero's entrance\<close>

text \<open>
  The hero's elements animate once, on mount (\<open>initial\<close> to \<open>animate\<close>), each with
  a delay and a duration: an entry animation extended by its duration. The copy block
  (title, text, buttons, highlights) sits inside the \<open>motion.div\<close> whose opacity is
  \<open>heroOpacity\<close>, so what is seen of an element is the product of the two
  opacities. The easing curves are a parameter; the image's rotation is not modelled.
\<close>

record mount_anim = entry_anim +
  ma_duration :: seconds

definition hero_title_anim :: mount_anim where
  "hero_title_anim =
     \<lparr>ea_from = (0, 20, 1), ea_to = (1, 0, 1), ea_delay = 0, ea_once = True, ma_duration = 8 / 10\<rparr>"

definition hero_text_anim :: mount_anim where
  "hero_text_anim =
     \<lparr>ea_from = (0, 20, 1), ea_to = (1, 0, 1), ea_delay = 2 / 10, ea_once = True, ma_duration = 8 / 10\<rparr>"

definition hero_buttons_anim :: mount_anim where
  "hero_buttons_anim =
     \<lparr>ea_from = (0, 20, 1), ea_to = (1, 0, 1), ea_delay = 4 / 10, ea_once = True, ma_duration = 8 / 10\<rparr>"

definition hero_highlights_anim :: mount_anim where
  "hero_highlights_anim =
     \<lparr>ea_from = (0, 0, 1), ea_to = (1, 0, 1), ea_delay = 6 / 10, ea_once = True, ma_duration = 1\<rparr>"

definition hero_image_anim :: mount_anim where
  "hero_image_anim =
     \<lparr>ea_from = (0, 0, 9 / 10), ea_to = (1, 0, 1), ea_delay = 0, ea_once = True, ma_duration = 12 / 10\<rparr>"

text \<open>The children of the copy block, in document order.\<close>

definition hero_copy_anims :: "mount_anim list" where
  "hero_copy_anims = [hero_title_anim, hero_text_anim, hero_buttons_anim, hero_highlights_anim]"

text \<open>
  An element's own opacity at time \<open>t\<close> after mount under easing \<open>ease\<close>, and what is
  seen of a copy element at scroll offset \<open>s\<close>.
\<close>

definition mount_opacity :: "(real \<Rightarrow> real) \<Rightarrow> mount_anim \<Rightarrow> seconds \<Rightarrow> real" where
  "mount_opacity ease a t =
     keyframes2 (fst (ea_from a)) (fst (ea_to a))
       (ease (progress2 (ea_delay a) (ea_delay a + ma_duration a) t))"

definition hero_copy_seen :: "(real \<Rightarrow> real) \<Rightarrow> px \<Rightarrow> mount_anim \<Rightarrow> seconds \<Rightarrow> real" where
  "hero_copy_seen ease s a t = heroOpacity s * mount_opacity ease a t"

section \<open>Lemmas\<close>

lemma entry_run_once_rising: "ea_once a \<Longrightarrow> rising_edges False (entry_run a vs) \<le> 1"
  using latch_run_once_rising_le1 [of vs] by (simp add: entry_run_def)

lemmas entry_groups_simps = entry_groups_def problem_anims_def outcome_anims_def
  fade_in_up_anim_def fade_in_up_style_def feature_cards_def how_steps_def bundles_def
  feature_card_anim_def how_step_anim_def bundle_card_anim_def routine_card_anim_def upt_rec

lemma heroOpacity_range: "0 \<le> heroOpacity s \<and> heroOpacity s \<le> 1 \<and> (300 \<le> s \<longrightarrow> heroOpacity s = 0)"
  using progress2_bounds [of 0 300 s] progress2_high [of 300 s 0]
  by (simp add: heroOpacity_def transform2_def)

lemma hero_seen_facts:
  assumes ease: "\<forall>x. 0 \<le> x \<and> x \<le> 1 \<longrightarrow> 0 \<le> ease x \<and> ease x \<le> 1"
    and e0: "ease 0 = 0" and e1: "ease 1 = 1"
    and a: "fst (ea_from a) = 0" "fst (ea_to a) = 1" "0 \<le> ea_delay a" "0 < ma_duration a"
      "ea_delay a + ma_duration a \<le> 16 / 10"
  shows "hero_copy_seen ease s a 0 = 0 \<and>
         (16 / 10 \<le> t \<longrightarrow> hero_copy_seen ease s a t = heroOpacity s) \<and>
         0 \<le> hero_copy_seen ease s a t \<and> hero_copy_seen ease s a t \<le> heroOpacity s \<and>
         (300 \<le> s \<longrightarrow> hero_copy_seen ease s a t = 0)"
proof -
  let ?p = "progress2 (ea_delay a) (ea_delay a + ma_duration a)"
  have lt: "ea_delay a < ea_delay a + ma_duration a" using a by simp
  have op: "mount_opacity ease a t = ease (?p t)" for t
    using a by (simp add: mount_opacity_def keyframes2_def)
  have "?p 0 = 0" using a lt by (intro progress2_low) simp_all
  then have z: "mount_opacity ease a 0 = 0" using e0 by (simp add: op)
  have one: "16 / 10 \<le> t \<Longrightarrow> mount_opacity ease a t = 1"
    using a lt e1 progress2_high [of "ea_delay a + ma_duration a" t "ea_delay a"] by (simp add: op)
  have "0 \<le> ?p t \<and> ?p t \<le> 1" using lt by (rule progress2_bounds)
  then have m: "0 \<le> mount_opacity ease a t \<and> mount_opacity ease a t \<le> 1"
    using ease by (simp add: op)
  have h: "0 \<le> heroOpacity s \<and> heroOpacity s \<le> 1 \<and> (300 \<le> s \<longrightarrow> heroOpacity s = 0)"
    by (rule heroOpacity_range)
  from m h have "heroOpacity s * mount_opacity ease a t \<le> heroOpacity s"
    by (simp add: mult_left_le)
  with z one m h show ?thesis by (simp add: hero_copy_seen_def)
qed

section \<open>Properties\<close>

text \<open>
  C25. Every entry animation of the page starts hidden (opacity 0), comes to rest fully
  visible at its place (opacity 1, no offset, scale 1), is \<open>once\<close>, and so plays at
  most once whatever the block's visibility does; within each group the delays grow
  strictly in reading order.
\<close>

theorem entry_animations_once:
  "\<forall>(sec, g)\<in>set entry_groups.
     sorted_wrt (<) (map ea_delay g) \<and>
     (\<forall>a\<in>set g. fst (ea_from a) = 0 \<and> ea_to a = (1, 0, 1) \<and> ea_once a \<and>
        rising_edges False (entry_run a vs) \<le> 1)"
proof -
  have "\<forall>(sec, g)\<in>set entry_groups. sorted_wrt (<) (map ea_delay g) \<and>
      (\<forall>a\<in>set g. fst (ea_from a) = 0 \<and> ea_to a = (1, 0, 1) \<and> ea_once a)"
    by (simp add: entry_groups_simps)
  then show ?thesis by (fastforce intro: entry_run_once_rising)
qed

theorem entry_animations_once_witness:
  "ea_once (feature_card_anim 1) \<and>
   rising_edges False (entry_run (feature_card_anim 1) [False, True, False, True]) \<le> 1"
proof -
  have m: "(FeaturesSection, map feature_card_anim [0..<length feature_cards]) \<in> set entry_groups"
    by (simp add: entry_groups_def)
  have a: "feature_card_anim 1 \<in> set (map feature_card_anim [0..<length feature_cards])"
    by (simp add: feature_cards_def)
  from bspec [OF entry_animations_once [of "[False, True, False, True]"] m]
  have "\<forall>a\<in>set (map feature_card_anim [0..<length feature_cards]).
      ea_once a \<and> rising_edges False (entry_run a [False, True, False, True]) \<le> 1"
    by simp
  with a show ?thesis by blast
qed

text \<open>
  C26. The hero's entrance, for every easing curve that maps \<open>[0, 1]\<close> into itself
  and fixes 0 and 1: the copy's elements start in reading order (title, text, buttons,
  highlights); at mount none of them is seen; from 1.6 s on each is seen exactly as
  much as the scroll fade lets it; at no time is one seen more than the scroll fade
  allows; and once the page is scrolled 300 px or more the copy is invisible, whatever
  the entrance has reached.
\<close>

theorem hero_entrance:
  assumes "\<forall>x. 0 \<le> x \<and> x \<le> 1 \<longrightarrow> 0 \<le> ease x \<and> ease x \<le> 1"
    and "ease 0 = 0" and "ease 1 = 1"
  shows "sorted_wrt (<) (map ea_delay hero_copy_anims) \<and>
         (\<forall>a\<in>set hero_copy_anims.
            hero_copy_seen ease s a 0 = 0 \<and>
            (16 / 10 \<le> t \<longrightarrow> hero_copy_seen ease s a t = heroOpacity s) \<and>
            0 \<le> hero_copy_seen ease s a t \<and> hero_copy_seen ease s a t \<le> heroOpacity s \<and>
            (300 \<le> s \<longrightarrow> hero_copy_seen ease s a t = 0))"
  using hero_seen_facts [OF assms, of hero_title_anim] hero_seen_facts [OF assms, of hero_text_anim]
    hero_seen_facts [OF assms, of hero_buttons_anim] hero_seen_facts [OF assms, of hero_highlights_anim]
  by (simp add: hero_copy_anims_def hero_title_anim_def hero_text_anim_def hero_buttons_anim_def
      hero_highlights_anim_def)

theorem hero_entrance_witness:
  "hero_copy_seen (\<lambda>x. x) 0 hero_text_anim 0 = 0 \<and>
   hero_copy_seen (\<lambda>x. x) 0 hero_text_anim 2 = 1 \<and>
   hero_copy_seen (\<lambda>x. x) 400 hero_text_anim 2 = 0"
proof -
  have h: "\<forall>x::real. 0 \<le> x \<and> x \<le> 1 \<longrightarrow> 0 \<le> x \<and> x \<le> 1" by simp
  have "heroOpacity 0 = 1" by (simp add: heroOpacity_def transform2_def progress2_def)
  with hero_entrance [OF h, of 0 2] hero_entrance [OF h, of 400 2] show ?thesis
    by (simp add: hero_copy_anims_def)
qed

end
