(* ===== verification/ModelViewer.thy ===== *)
theory ModelViewer
  imports Prelude
begin

text \<open>
  The embedded 3D viewer of \<open>src/components/ModelViewer.tsx\<close>: a stateless component
  that renders a decorative glow and a wrapper holding one Sketchfab \<open>iframe\<close>. The
  element tree is modelled as a small datatype, the iframe's attributes as a record.
  The component has no props, state or handlers, and \<open>App\<close> never renders it, so the
  theory only records its output; no property is stated about it.
\<close>

section \<open>Definitions\<close>

subsection \<open>The component\<close>

record iframe =
  if_title :: string
  frameBorder :: string
  allowFullScreen :: bool
  if_allow :: string
  if_src :: string
  if_class :: css_class

datatype node = Div css_class "node list" | IFrame iframe

definition model_viewer_iframe :: iframe where
  "model_viewer_iframe =
     \<lparr>if_title = ''Fashion Design Underwear For Men Boxer Briefs'',
      frameBorder = ''0'',
      allowFullScreen = True,
      if_allow = ''autoplay; fullscreen; xr-spatial-tracking'',
      if_src = ''https://sketchfab.com/models/c378802e1ac840498f2e119be1f6a9b7/embed?ui_theme=dark&autostart=1&transparent=1'',
      if_class = ''w-full h-full min-h-[400px] md:min-h-[600px]''\<rparr>"

definition model_viewer :: node where
  "model_viewer =
     Div ''w-full h-full relative group''
       [Div ''absolute top-1/2 left-1/2 -translate-x-1/2 -translate-y-1/2 w-[120%] h-[120%] bg-blue-500/10 blur-[100px] rounded-full pointer-events-none'' [],
        Div ''sketchfab-embed-wrapper w-full h-full relative z-10 rounded-xl overflow-hidden shadow-2xl border border-white/5''
          [IFrame model_viewer_iframe]]"

end
