(* ===== verification/Spec2Isabelle.thy ===== *)
theory Spec2Isabelle
  imports Sections ModelViewer
begin

text \<open>
  \<^bold>\<open>A verification development of the ColdBoxers landing page.\<close>

  \<^bold>\<open>The program.\<close> The repository (\<open>src/\<close>) is one React page written in
  TypeScript. \<open>src/types.ts\<close> declares the \<open>Bundle\<close> interface, the
  \<open>ColorOption\<close> enum and the \<open>COLORS\<close> and \<open>SIZES\<close> arrays; \<open>src/App.tsx\<close>
  holds the data arrays (\<open>bundles\<close>, \<open>galleryImages\<close>, \<open>faqs\<close>, \<open>reviews\<close>),
  the animation primitives \<open>FadeInUp\<close>, \<open>RevealText\<close>, \<open>ParallaxImage\<close> and
  \<open>Marquee\<close>, and the root component \<open>App\<close>, which owns the only shared
  interaction state (\<open>selectedColor\<close>, \<open>selectedSize\<close>, \<open>activeFaq\<close>) and
  composes the sections; \<open>src/components/Navbar.tsx\<close> keeps its own two booleans and
  subscribes to the window's scroll events; \<open>src/components/Button.tsx\<close> is a styled
  button; \<open>src/components/ModelViewer.tsx\<close> is an iframe embed that no file renders.
  Data flows one way: \<open>App\<close> passes values and callbacks down, handlers run one at a
  time on the event loop, and no component writes another's state; the only channel
  between \<open>App\<close> and the navbar is the window's scroll offset.

  \<^bold>\<open>Theories.\<close>
  \<^item> \<open>Prelude\<close>: type names (\<open>px\<close>, \<open>seconds\<close>, \<open>dom_id\<close>, ...), the
    theorem collections, JavaScript's \<open>split\<close> with a one-character separator, the
    browser's reading of a space-separated attribute (\<open>css_tokens\<close>), and the
    key-uniqueness lemmas behind every "exactly one selected" fact.
  \<^item> \<open>Catalog\<close>: \<open>types.ts\<close> and the data arrays of \<open>App.tsx\<close> (lines 8--66)
    as records, a datatype (an instance of \<open>enum\<close>) and literal lists, with the
    lengths and unique keys the selection arguments use.
  \<^item> \<open>Configurator\<close>: \<open>App\<close>'s state as the record \<open>app_state\<close>, its initial
    value \<open>app_init\<close> (lines 155--157), every click handler that writes it as one
    case of \<open>app_step\<close> (swatches 459--471, sizes 478--486, bundle CTAs 530--535,
    FAQ 599--618), the rendering tests of the selected and expanded controls, the
    invariant \<open>app_inv\<close>, the reachable states \<open>app_reachable\<close>, and the spec's
    accordion (\<open>accordion\<close>, \<open>accordion_activate\<close>) that the FAQ handler refines.
  \<^item> \<open>Navbar\<close>: the navbar's state, \<open>handleScroll\<close>, the subscription effect and its
    cleanup over a window with a listener list (\<open>nav_world\<close>, \<open>nav_step\<close>), the
    mobile-menu handlers, the logo's jump to the top, the scroll targets, the invariants \<open>nav_inv\<close> (exactly the
    live listener is registered) and \<open>scroll_sound\<close> (never opaque at an offset of
    50 or less), and the reachable configurations \<open>nav_reachable\<close>.
  \<^item> \<open>Motion\<close>: the framer-motion behaviour the primitives rely on (clamped
    two-point \<open>transform\<close>, looping two- and three-keyframe animations, the
    \<open>once\<close> in-view latch); library semantics, not repository code.
  \<^item> \<open>Primitives\<close>: \<open>FadeInUp\<close>, \<open>RevealText\<close>, \<open>ParallaxImage\<close>,
    \<open>Marquee\<close> (lines 68--146), the hero transforms (lines 151--153) and the
    hero's looping badge and scroll cue (lines 249--266).
  \<^item> \<open>Button\<close>: \<open>Button.tsx\<close>'s props with their defaults, the class template and
    the \<open>variants\<close> object literal, the primary-only overlay, the hover and press
    scale.
  \<^item> \<open>ModelViewer\<close>: \<open>ModelViewer.tsx\<close>'s element tree and iframe attributes (a
    constant tree: the component has no props, state or handler, and no file renders it).
  \<^item> \<open>Page\<close>: the sections in order with their ids, the page's scroll buttons,
    \<open>getElementById\<close>, the bundle cards, and which images handle a load error.
  \<^item> \<open>Sections\<close>: the content arrays and every in-view entry animation of the
    sections between the hero and the FAQ (lines 274--500), grouped as they stagger,
    and the hero's entrance on mount (lines 170--237) under its scroll fade.
  \<^item> This theory: the whole page as one state machine, \<open>App\<close>'s state beside the
    navbar's world, events of either component, the hero's scroll cue and the footer's
    links dispatched one at a time (\<open>page_step\<close>, \<open>page_reachable\<close>), with the lemmas
    that every reachable page state projects to a reachable configurator state and a
    reachable navbar configuration, so the component invariants hold in every
    interleaving of their events.

  \<^bold>\<open>What the lemmas show.\<close> For the configurator (claims C1--C7, C23): every
  click's effect on the swatches, the size buttons and the FAQ, the invariant that the
  selection stays inside the catalog, exactly one swatch and one size drawn selected
  and at most one FAQ panel expanded in every reachable state, the refinement of the
  spec's \<open>{closed, open(i)}\<close> machine, and that every selection inside the catalog is
  at most three clicks away from every reachable state. For the navbar (C8--C13,
  C20, C21): the scroll flag is \<open>scrollY > 50\<close> after every scroll while mounted and
  depends on the last offset only, the window holds exactly the live listener (none
  after teardown) in every reachable configuration, mount then unmount restores the
  listener list, the menu handlers, each flag changes only through its own controls,
  the bar is never opaque at an offset of 50 or less, and it starts transparent
  whatever the offset at mount. For the primitives (C14--C18, C22, C24): the stagger
  is strictly increasing, \<open>once\<close> reveals play at most once and show exactly what
  has been seen, the transforms stay in range, are monotone and continuous, the
  marquee loops every 40 s, and the hero's badge and scroll cue every 5 s and 2 s,
  without a jump and within their ranges for every easing curve. For the button (C19):
  the class tokens and the overlay as functions of the props as passed, defaults
  included. For the sections (C25, C26): every entry animation starts hidden, rests
  visible, plays at most once and staggers in reading order; the hero's copy enters in
  reading order, is fully in by 1.6 s and is never seen more than its scroll fade
  allows.

  \<^bold>\<open>What modelling showed.\<close> The navbar does not evaluate the offset on mount, so
  a page loaded past 50 px shows a transparent bar until the first scroll event
  (claim C13); only the parallax image handles a load error, though the spec describes
  that handling for images in general (\<open>image_error_opacity\<close> in \<open>Page\<close>); the
  bundle CTAs have no handler, so the captured colour and size are never used; the 3D
  viewer the spec lists among the page's collaborators is never rendered, as no file
  imports \<open>ModelViewer\<close>.

  \<^bold>\<open>Modelling choices.\<close> JavaScript numbers read as pixels, percentages or seconds
  are \<open>real\<close>; prices are \<open>int\<close> (all are integer literals); indices are
  \<open>nat\<close>. No loop of the program can fail to terminate: the recursion of the model is
  structural, over strings and lists, so every function is total and no fuel is
  needed. A click on a
  control that is not rendered is the value \<open>None\<close>, not a state. The window is
  modelled as far as the navbar uses it: its offset and its list of scroll listeners
  with the DOM's no-duplicate \<open>addEventListener\<close>; each effect run creates a fresh
  listener, so a listener left by a missing cleanup would be visible. A smooth scroll
  is its final offset, which is all the navbar's flag depends on (claim C20). A jump
  whose destination the code fixes (the logo and footer anchors to \<open>#\<close>, the scroll
  cue's \<open>window.scrollTo\<close>) scrolls the window within its event; a jump to an
  element (a section anchor, \<open>scrollIntoView\<close>) yields its target id, and the scroll
  it causes, whose offset depends on the layout, arrives as a scroll event.

  \<^bold>\<open>Not modelled.\<close> Rendering itself (markup, CSS, layout), the particular easing
  curves (the hero loops' claims hold for every curve mapping \<open>[0, 1]\<close> into itself;
  elsewhere progress is linear, and no claim depends on the curve), the hover
  animations of cards and reviews, the hero image's rotation, the reviews' star rows
  and the copyright year (static output with no state), framer-motion's own scroll
  listeners, the viewport geometry that produces
  \<open>scrollYProgress\<close> and visibility (they enter as inputs), the Button's rest props
  spread (the page passes only \<open>onClick\<close> and \<open>className\<close>, both modelled with
  each caller), the embed URL's parameters and the browser's reading of the iframe's
  \<open>allow\<close> attribute (the viewer is never rendered), and the static text of the
  sections.
\<close>

section \<open>The page as one state machine\<close>

record page_state =
  app :: app_state
  navw :: nav_world

text \<open>
  Events of the page: the configurator's clicks, the navbar's events, and the hero's
  scroll cue, whose \<open>onClick\<close> is
  \<open>window.scrollTo({top: window.innerHeight, behavior: 'smooth'})\<close> for a viewport of
  height \<open>vh\<close>. The smooth scroll's frames end at \<open>vh\<close>, and the navbar's flag
  depends on the last offset only (claim C20), so the click is modelled as the scroll
  event at its destination, dispatched to the window's listeners. A footer link is an
  anchor to \<open>#\<close>, which scrolls the document to its top.
\<close>

datatype page_event = AppEv app_event | NavEv nav_event | ScrollCueClick px | FooterLinkClick nat

definition page_init :: "px \<Rightarrow> page_state" where
  "page_init y0 = \<lparr>app = app_init, navw = nav_world_init y0\<rparr>"

fun page_step :: "page_state \<Rightarrow> page_event \<Rightarrow> page_state option" where
  "page_step s (AppEv e) = map_option (\<lambda>a. s\<lparr>app := a\<rparr>) (app_step (app s) e)"
| "page_step s (NavEv e) = map_option (\<lambda>w. s\<lparr>navw := w\<rparr>) (nav_step (navw s) e)"
| "page_step s (ScrollCueClick vh) = Some (s\<lparr>navw := scroll_window vh (navw s)\<rparr>)"
| "page_step s (FooterLinkClick i) =
     (if i < length footer_links then Some (s\<lparr>navw := scroll_window 0 (navw s)\<rparr>) else None)"

inductive page_reachable :: "page_state \<Rightarrow> bool" where
  init: "page_reachable (page_init y0)"
| step: "page_reachable s \<Longrightarrow> page_step s e = Some s' \<Longrightarrow> page_reachable s'"

text \<open>Whether the mounted navbar is drawn opaque (\<open>nav_class True\<close>).\<close>

definition navbar_opaque :: "page_state \<Rightarrow> bool" where
  "navbar_opaque s = (case nav (navw s) of None \<Rightarrow> False | Some st \<Rightarrow> isScrolled st)"

section \<open>Lemmas\<close>

lemma page_reachable_app: "page_reachable s \<Longrightarrow> app_reachable (app s)"
proof (induction rule: page_reachable.induct)
  case (init y0)
  show ?case by (simp add: page_init_def app_reachable.init)
next
  case (step s e s')
  then show ?case by (cases e) (auto intro: app_reachable.step split: if_splits)
qed

lemma page_reachable_nav: "page_reachable s \<Longrightarrow> nav_reachable (navw s)"
proof (induction rule: page_reachable.induct)
  case (init y0)
  show ?case by (simp add: page_init_def nav_reachable.init)
next
  case (step s e s')
  show ?case
  proof (cases e)
    case (AppEv a)
    with step show ?thesis by auto
  next
    case (NavEv n)
    with step show ?thesis by (auto intro: nav_reachable.step)
  next
    case (ScrollCueClick vh)
    with step show ?thesis by (auto intro: nav_reachable_scroll_window)
  next
    case (FooterLinkClick i)
    with step show ?thesis by (auto intro: nav_reachable_scroll_window split: if_splits)
  qed
qed

end
